theory Spec2Isabelle
  imports Main
begin

section \<open>Data model of \<open>nft.service.ts\<close>\<close>

text \<open>
  The class \<open>NftService\<close> holds one piece of state, the static field
  \<open>cache : Record<string, NftInfo>\<close>, and talks to five collaborators that are not part
  of the file: the schema detector \<open>NftProvider.getNftType\<close>, the signer
  (\<open>getAddress\<close>, \<open>sendTransaction\<close>), the typechain contract handle
  (\<open>populateTransaction\<close>), \<open>TransactionService.prepareTransaction\<close> and
  \<open>ContractFactory.deploy\<close>. Every one of them is awaited and may reject, so each is a
  function into \<open>error + 'a\<close>; the operations take them as a record \<open>deps\<close>.
  Each call to a collaborator is recorded, in order, in the \<open>trace\<close> of the state, so
  that "no second detection query" and "before any preparation" are statements about
  the trace. The constructor of an ethers \<open>Wallet\<close> is not awaited: it returns or
  throws at once, and leaves nothing in the trace.
\<close>

type_synonym address = string
type_synonym chain_id = int

text \<open>
  Modelled from the spec: the enum \<open>NftType\<close> is declared in \<open>./types\<close>, which is not
  among the sources. The spec's ContractSchema has the three values SingleOwner,
  MultiOwner and Unknown; the source names them \<open>ERC721\<close>, \<open>ERC1155\<close>, \<open>UNKNOWN\<close>.
\<close>

datatype NftType = ERC721 | ERC1155 | UNKNOWN

text \<open>
  Exceptions as values. \<open>Error m\<close> is JavaScript's \<open>new Error(m)\<close>; \<open>TypeError\<close> is
  what the runtime raises when index 0 of \<open>undefined\<close> is read (its message depends
  on the engine and is left out). A collaborator may reject with any such value; the
  service never wraps or tags what it propagates.
\<close>

datatype error = Error string | TypeError

text \<open>
  Modelled from the spec: \<open>getChainProvider\<close> lives in \<open>../factory/chain-provider\<close>,
  not among the sources; the spec's ChainProviderFactory returns a read connection for
  a chain identifier.
\<close>

datatype provider = ChainProvider chain_id

definition getChainProvider :: "chain_id \<Rightarrow> provider" where
  "getChainProvider chainID = ChainProvider chainID"

datatype factory = LiqERC721_factory | LiqERC1155_factory

record Contract =
  c_interface :: factory
  c_provider :: provider
  c_address :: address

definition AddressZero :: address where
  "AddressZero = ''0x0000000000000000000000000000000000000000''"

definition connect :: "factory \<Rightarrow> address \<Rightarrow> provider \<Rightarrow> Contract" where
  "connect f a p = \<lparr>c_interface = f, c_provider = p, c_address = a\<rparr>"

definition attach :: "Contract \<Rightarrow> address \<Rightarrow> Contract" where
  "attach c a = c\<lparr>c_address := a\<rparr>"

record NftInfo =
  contract :: Contract
  schema :: NftType

text \<open>
  The cache is the plain object \<open>{}\<close> of line 27, read as \<open>cache[contractAddress]\<close>
  and tested for truthiness (line 119). Such a read finds the object's own entries and,
  where there is none, the members every object inherits from \<open>Object.prototype\<close>:
  functions, and for \<open>__proto__\<close> the prototype itself, all of them truthy. So a read
  gives a stored \<open>NftInfo\<close>, an inherited member (named here by its key; it has
  neither a \<open>schema\<close> nor a \<open>contract\<close> property), or \<open>undefined\<close>.
\<close>

datatype cached = Stored NftInfo | Inherited string

definition Object_prototype :: "string list" where
  "Object_prototype =
     [''constructor'', ''hasOwnProperty'', ''isPrototypeOf'', ''propertyIsEnumerable'',
      ''toLocaleString'', ''toString'', ''valueOf'', ''__proto__'', ''__defineGetter__'',
      ''__defineSetter__'', ''__lookupGetter__'', ''__lookupSetter__'']"

definition cache_read :: "(address \<rightharpoonup> NftInfo) \<Rightarrow> address \<Rightarrow> cached option" where
  "cache_read m a =
     (case m a of
        Some info \<Rightarrow> Some (Stored info)
      | None \<Rightarrow> if a \<in> set Object_prototype then Some (Inherited a) else None)"

text \<open>
  Modelled from the spec: the request types are declared in \<open>./types\<close>. A
  TransferRequest is \<open>{contractAddress, receiver, tokenIDs, amounts?}\<close> with
  \<open>amounts\<close> optional (the source reads it as \<open>amounts!\<close>); token ids are strings.
\<close>

record TransferRequest =
  contractAddress :: address
  receiver :: address
  tokenIDs :: "string list"
  amounts :: "int list option"

record MintERC1155Request =
  m1155_contractAddress :: address
  m1155_recipient :: address
  m1155_id :: string
  m1155_amount :: int

record MintERC721Request =
  m721_contractAddress :: address
  m721_recipient :: address
  m721_uri :: string

record CreateERC1155CollectionRequest =
  c1155_uri :: string

record CreateERC721CollectionRequest =
  c721_tokenName :: string
  c721_tokenSymbol :: string

datatype JsonRpcSigner = JsonRpcSigner nat

datatype signer = Wallet string provider | RpcSigner JsonRpcSigner

text \<open>
  The unsigned calls the service asks a contract handle to populate. An argument read
  as \<open>xs[0]\<close> is \<open>undefined\<close> when the array is empty, hence the options; \<open>amounts\<close>
  is handed over as it is, present or not.
\<close>

datatype call =
    safeTransferFrom_address_address_uint256 address address "string option"
  | safeBatchTransferFrom address address "string list" "int list option" string
  | safeTransferFrom address address "string option" "int option" string
  | mint address string int string
  | safeMint address string

record TransactionRequest =
  tx_to :: "address option"
  tx_from :: "address option"
  tx_data :: "string option"
  tx_chainId :: "chain_id option"
  tx_nonce :: "nat option"
  tx_gasLimit :: "nat option"

record TransactionResponse =
  hash :: string

datatype event =
    Ev_getNftType address chain_id
  | Ev_getAddress signer
  | Ev_populateTransaction Contract call
  | Ev_prepareTransaction TransactionRequest chain_id
  | Ev_sendTransaction signer TransactionRequest
  | Ev_deploy factory signer "string list"

text \<open>
  The collaborators. \<open>refusedKey\<close> is what the constructor \<open>new Wallet(pk, provider)\<close>
  of ethers throws on a private key it refuses, if it refuses it.
  \<open>NftType_toString\<close> is how a member of the enum prints inside a template literal,
  which the missing declaration of the enum decides.
\<close>

record deps =
  getNftType :: "address \<Rightarrow> chain_id \<Rightarrow> error + NftType"
  getAddress :: "signer \<Rightarrow> error + address"
  populateTransaction :: "Contract \<Rightarrow> call \<Rightarrow> error + TransactionRequest"
  prepareTransaction :: "TransactionRequest \<Rightarrow> chain_id \<Rightarrow> error + TransactionRequest"
  sendTransaction :: "signer \<Rightarrow> TransactionRequest \<Rightarrow> error + TransactionResponse"
  deploy :: "factory \<Rightarrow> signer \<Rightarrow> string list \<Rightarrow> error + TransactionResponse"
  refusedKey :: "string \<Rightarrow> error option"
  NftType_toString :: "NftType \<Rightarrow> string"

text \<open>
  \<open>getWallet\<close> of \<open>common/utils\<close>: a string is a private key and makes a new
  \<open>Wallet\<close> on the chain's provider, which throws at once on a key it refuses;
  anything else is the signer handle itself.
\<close>

fun getWallet :: "deps \<Rightarrow> string + JsonRpcSigner \<Rightarrow> chain_id \<Rightarrow> error + signer" where
  "getWallet d (Inl pk) chainID =
     (case refusedKey d pk of
        Some e \<Rightarrow> Inl e
      | None \<Rightarrow> Inr (Wallet pk (getChainProvider chainID)))"
| "getWallet d (Inr sg) chainID = Inr (RpcSigner sg)"

text \<open>
  The state: the own entries of the cache object, and the trace. A stored entry is an
  object, hence truthy. The service writes an entry only where a read found nothing, so
  it never writes under an inherited name (nor, under \<open>__proto__\<close>, replaces the
  prototype). Operations run one after the other; calls interleaved at their
  \<open>await\<close>s are not modelled.
\<close>

record world =
  cache :: "address \<rightharpoonup> NftInfo"
  trace :: "event list"

type_synonym 'a async = "world \<Rightarrow> (error + 'a) \<times> world"

definition resolved :: "'a \<Rightarrow> 'a async" where
  "resolved x s = (Inr x, s)"

definition throw :: "error \<Rightarrow> 'a async" where
  "throw e s = (Inl e, s)"

definition await :: "'a async \<Rightarrow> ('a \<Rightarrow> 'b async) \<Rightarrow> 'b async" where
  "await m f s = (case m s of (Inl e, s') \<Rightarrow> (Inl e, s') | (Inr x, s') \<Rightarrow> f x s')"

definition ask :: "event \<Rightarrow> error + 'a \<Rightarrow> 'a async" where
  "ask ev r s = (r, s\<lparr>trace := trace s @ [ev]\<rparr>)"

text \<open>A synchronous step of an async function: what it throws rejects the promise.\<close>

definition sync :: "error + 'a \<Rightarrow> 'a async" where
  "sync r s = (r, s)"

text \<open>\<open>xs[0]\<close> and \<open>xs.join()\<close> of JavaScript arrays.\<close>

fun index0 :: "'a list \<Rightarrow> 'a option" where
  "index0 [] = None"
| "index0 (x # xs) = Some x"

fun join :: "string list \<Rightarrow> string" where
  "join [] = []"
| "join [x] = x"
| "join (x # y # ys) = x @ '','' @ join (y # ys)"

section \<open>Operations\<close>

definition cacheGet :: "deps \<Rightarrow> address \<Rightarrow> chain_id \<Rightarrow> cached async" where
  "cacheGet d addr chainID s =
     (case cache_read (cache s) addr of
        Some found \<Rightarrow> (Inr found, s)
      | None \<Rightarrow>
          await (ask (Ev_getNftType addr chainID) (getNftType d addr chainID))
            (\<lambda>nftType s'.
               if nftType \<noteq> UNKNOWN then
                 (let contractFactory =
                        (if nftType = ERC1155 then LiqERC1155_factory else LiqERC721_factory);
                      info = \<lparr>contract =
                                attach (connect contractFactory AddressZero (getChainProvider chainID)) addr,
                              schema = nftType\<rparr>
                  in (Inr (Stored info), s'\<lparr>cache := (cache s')(addr \<mapsto> info)\<rparr>))
               else throw (Error (addr @ '' is not an NFT contract'')) s') s)"

text \<open>
  Lines 99 to 112, shared by transfer and both mints: add \<open>from\<close> and \<open>chainId\<close> to the
  populated transaction, prepare it, send it, return the hash.
\<close>

definition prepareAndSend ::
  "deps \<Rightarrow> signer \<Rightarrow> address \<Rightarrow> chain_id \<Rightarrow> TransactionRequest \<Rightarrow> string async" where
  "prepareAndSend d wallet owner chainId tx =
     (let request = tx\<lparr>tx_from := Some owner, tx_chainId := Some chainId\<rparr> in
      await (ask (Ev_prepareTransaction request chainId) (prepareTransaction d request chainId))
        (\<lambda>preparedTx.
           await (ask (Ev_sendTransaction wallet preparedTx) (sendTransaction d wallet preparedTx))
             (\<lambda>response. resolved (hash response))))"

definition populate :: "deps \<Rightarrow> Contract \<Rightarrow> call \<Rightarrow> TransactionRequest async" where
  "populate d c k = ask (Ev_populateTransaction c k) (populateTransaction d c k)"

text \<open>
  The transfer. \<open>const {schema, contract} = await this.cacheGet(...)\<close> reads both
  properties off what the cache returned: off an inherited member both are
  \<open>undefined\<close>, the switch takes its default branch and the template literal prints
  \<open>undefined\<close>.
\<close>

definition transferNft ::
  "deps \<Rightarrow> TransferRequest \<Rightarrow> chain_id \<Rightarrow> string + JsonRpcSigner \<Rightarrow> string async" where
  "transferNft d transferRequest chainId pkOrSigner =
     await (cacheGet d (contractAddress transferRequest) chainId)
       (\<lambda>found.
          await (sync (getWallet d pkOrSigner chainId))
            (\<lambda>wallet.
               await (ask (Ev_getAddress wallet) (getAddress d wallet))
                 (\<lambda>owner.
                    let data = ''0x'';
                        rcv = receiver transferRequest;
                        ids = tokenIDs transferRequest
                    in
                    await
                      (case found of
                         Stored info \<Rightarrow>
                           (case schema info of
                              ERC721 \<Rightarrow>
                                if length ids \<noteq> 1 then
                                  throw (Error (''ERC 721 transfer supports exactly 1 tokenID, received ''
                                                @ join ids))
                                else populate d (contract info)
                                       (safeTransferFrom_address_address_uint256 owner rcv (index0 ids))
                            | ERC1155 \<Rightarrow>
                                if length ids > 1 then
                                  populate d (contract info)
                                    (safeBatchTransferFrom owner rcv ids (amounts transferRequest) data)
                                else
                                  (case amounts transferRequest of
                                     None \<Rightarrow> throw TypeError
                                   | Some ams \<Rightarrow>
                                       populate d (contract info)
                                         (safeTransferFrom owner rcv (index0 ids) (index0 ams) data))
                            | UNKNOWN \<Rightarrow>
                                throw (Error (''Unsupported NFT type: ''
                                              @ NftType_toString d (schema info))))
                       | Inherited name \<Rightarrow>
                           throw (Error (''Unsupported NFT type: '' @ ''undefined'')))
                      (prepareAndSend d wallet owner chainId))))"

definition createERC1155Collection ::
  "deps \<Rightarrow> CreateERC1155CollectionRequest \<Rightarrow> chain_id \<Rightarrow> string + JsonRpcSigner \<Rightarrow> string async" where
  "createERC1155Collection d request chainId pkOrSigner =
     await (sync (getWallet d pkOrSigner chainId))
       (\<lambda>factorySigner.
          await (sync (getWallet d pkOrSigner chainId))
            (\<lambda>wallet.
               await (ask (Ev_getAddress wallet) (getAddress d wallet))
                 (\<lambda>owner.
                    await (ask (Ev_deploy LiqERC1155_factory factorySigner [c1155_uri request])
                             (deploy d LiqERC1155_factory factorySigner [c1155_uri request]))
                      (\<lambda>response. resolved (hash response)))))"

definition mintERC1155Token ::
  "deps \<Rightarrow> MintERC1155Request \<Rightarrow> chain_id \<Rightarrow> string + JsonRpcSigner \<Rightarrow> string async" where
  "mintERC1155Token d request chainId pkOrSigner =
     (let contract = attach (connect LiqERC1155_factory AddressZero (getChainProvider chainId))
                       (m1155_contractAddress request)
      in
      await (sync (getWallet d pkOrSigner chainId))
        (\<lambda>wallet.
           await (ask (Ev_getAddress wallet) (getAddress d wallet))
             (\<lambda>owner.
                let data = ''0x'' in
                await (populate d contract
                         (mint (m1155_recipient request) (m1155_id request) (m1155_amount request) data))
                  (prepareAndSend d wallet owner chainId))))"

definition createERC721Collection ::
  "deps \<Rightarrow> CreateERC721CollectionRequest \<Rightarrow> chain_id \<Rightarrow> string + JsonRpcSigner \<Rightarrow> string async" where
  "createERC721Collection d request chainId pkOrSigner =
     await (sync (getWallet d pkOrSigner chainId))
       (\<lambda>factorySigner.
          await (ask (Ev_deploy LiqERC721_factory factorySigner
                        [c721_tokenName request, c721_tokenSymbol request])
                   (deploy d LiqERC721_factory factorySigner
                        [c721_tokenName request, c721_tokenSymbol request]))
            (\<lambda>response. resolved (hash response)))"

definition mintERC721Token ::
  "deps \<Rightarrow> MintERC721Request \<Rightarrow> chain_id \<Rightarrow> string + JsonRpcSigner \<Rightarrow> string async" where
  "mintERC721Token d request chainId pkOrSigner =
     (let contract = attach (connect LiqERC721_factory AddressZero (getChainProvider chainId))
                       (m721_contractAddress request)
      in
      await (sync (getWallet d pkOrSigner chainId))
        (\<lambda>wallet.
           await (ask (Ev_getAddress wallet) (getAddress d wallet))
             (\<lambda>owner.
                await (populate d contract (safeMint (m721_recipient request) (m721_uri request)))
                  (prepareAndSend d wallet owner chainId))))"

section \<open>Observations on the trace, reachable states\<close>

text \<open>The calls a contract handle was asked to populate, and the preparations asked for.\<close>

fun populated :: "event list \<Rightarrow> (Contract \<times> call) list" where
  "populated [] = []"
| "populated (Ev_populateTransaction c k # es) = (c, k) # populated es"
| "populated (e # es) = populated es"

fun prepared :: "event list \<Rightarrow> (TransactionRequest \<times> chain_id) list" where
  "prepared [] = []"
| "prepared (Ev_prepareTransaction tx ch # es) = (tx, ch) # prepared es"
| "prepared (e # es) = prepared es"

text \<open>
  The static initialiser \<open>cache = {}\<close>, and the states the public operations can lead
  to from it, whatever the collaborators answer. (\<open>getNfts\<close> and
  \<open>getNftsForContract\<close> only delegate to \<open>NftProvider\<close> and touch no state of the
  service.)
\<close>

definition initial_world :: world where
  "initial_world = \<lparr>cache = Map.empty, trace = []\<rparr>"

inductive reachable :: "world \<Rightarrow> bool" where
  initial: "reachable initial_world"
| transfer: "reachable s \<Longrightarrow> reachable (snd (transferNft d rq ch pk s))"
| mint1155: "reachable s \<Longrightarrow> reachable (snd (mintERC1155Token d r5 ch pk s))"
| mint721: "reachable s \<Longrightarrow> reachable (snd (mintERC721Token d r7 ch pk s))"
| create1155: "reachable s \<Longrightarrow> reachable (snd (createERC1155Collection d c5 ch pk s))"
| create721: "reachable s \<Longrightarrow> reachable (snd (createERC721Collection d c7 ch pk s))"

text \<open>
  What holds of the stored entries in every reachable state: none has schema
  \<open>UNKNOWN\<close>, and none sits under an inherited name.
\<close>

definition cache_ok :: "world \<Rightarrow> bool" where
  "cache_ok s =
     (\<forall>a b. cache s a = Some b \<longrightarrow> schema b \<noteq> UNKNOWN \<and> a \<notin> set Object_prototype)"

section \<open>Concrete collaborators and requests for the examples\<close>

text \<open>
  A registry that knows \<open>0xABC\<close> as ERC1155 and \<open>0x123\<close> as ERC721 and nothing else,
  a signer whose address is \<open>0xA11CE\<close>, and collaborators that accept every request;
  then variants in which one collaborator rejects or the private key is refused.
\<close>

definition demo_tx :: "Contract \<Rightarrow> TransactionRequest" where
  "demo_tx c = \<lparr>tx_to = Some (c_address c), tx_from = None, tx_data = Some ''0xf242432a'',
               tx_chainId = None, tx_nonce = None, tx_gasLimit = None\<rparr>"

definition demo_deps :: deps where
  "demo_deps =
     \<lparr>getNftType = (\<lambda>a ch. if a = ''0xABC'' then Inr ERC1155
                           else if a = ''0x123'' then Inr ERC721 else Inr UNKNOWN),
      getAddress = (\<lambda>w. Inr ''0xA11CE''),
      populateTransaction = (\<lambda>c k. Inr (demo_tx c)),
      prepareTransaction = (\<lambda>tx ch. Inr (tx\<lparr>tx_nonce := Some 0, tx_gasLimit := Some 21000\<rparr>)),
      sendTransaction = (\<lambda>w tx. Inr \<lparr>hash = ''0xHASH''\<rparr>),
      deploy = (\<lambda>f w args. Inr \<lparr>hash = ''0xDEPLOY''\<rparr>),
      refusedKey = (\<lambda>pk. None),
      NftType_toString = (\<lambda>t. case t of ERC721 \<Rightarrow> ''ERC721'' | ERC1155 \<Rightarrow> ''ERC1155''
                                 | UNKNOWN \<Rightarrow> ''UNKNOWN'')\<rparr>"

definition offline_deps :: deps where
  "offline_deps =
     demo_deps\<lparr>getNftType := (\<lambda>a ch. Inl (Error ''network down'')),
               getAddress := (\<lambda>w. Inl (Error ''network down''))\<rparr>"

definition key_refused :: deps where
  "key_refused = demo_deps\<lparr>refusedKey := (\<lambda>pk. Some (Error ''invalid private key''))\<rparr>"

definition signer_rejects :: deps where
  "signer_rejects = demo_deps\<lparr>getAddress := (\<lambda>w. Inl (Error ''rejected''))\<rparr>"

definition prepare_rejects :: deps where
  "prepare_rejects = demo_deps\<lparr>prepareTransaction := (\<lambda>tx ch. Inl (Error ''rejected''))\<rparr>"

definition send_rejects :: deps where
  "send_rejects = demo_deps\<lparr>sendTransaction := (\<lambda>w tx. Inl (Error ''rejected''))\<rparr>"

definition abc_binding :: NftInfo where
  "abc_binding =
     \<lparr>contract = \<lparr>c_interface = LiqERC1155_factory, c_provider = ChainProvider 1,
                   c_address = ''0xABC''\<rparr>,
      schema = ERC1155\<rparr>"

definition nft123_binding :: NftInfo where
  "nft123_binding =
     \<lparr>contract = \<lparr>c_interface = LiqERC721_factory, c_provider = ChainProvider 1,
                   c_address = ''0x123''\<rparr>,
      schema = ERC721\<rparr>"

definition unknown_binding :: NftInfo where
  "unknown_binding =
     \<lparr>contract = \<lparr>c_interface = LiqERC721_factory, c_provider = ChainProvider 1,
                   c_address = ''0xBAD''\<rparr>,
      schema = UNKNOWN\<rparr>"

text \<open>
  The state after \<open>0xABC\<close> (or \<open>0x123\<close>) was resolved once on chain 1, and a state no
  run of the service produces, whose cache holds an entry of schema \<open>UNKNOWN\<close>.
\<close>

definition world_abc :: world where
  "world_abc = \<lparr>cache = [''0xABC'' \<mapsto> abc_binding], trace = [Ev_getNftType ''0xABC'' 1]\<rparr>"

definition world_123 :: world where
  "world_123 = \<lparr>cache = [''0x123'' \<mapsto> nft123_binding], trace = [Ev_getNftType ''0x123'' 1]\<rparr>"

definition world_unknown :: world where
  "world_unknown = \<lparr>cache = [''0xBAD'' \<mapsto> unknown_binding], trace = []\<rparr>"

definition transfer_of :: "address \<Rightarrow> string list \<Rightarrow> int list option \<Rightarrow> TransferRequest" where
  "transfer_of a ids ams = \<lparr>contractAddress = a, receiver = ''0xDEF'', tokenIDs = ids, amounts = ams\<rparr>"

definition demo_mint721 :: MintERC721Request where
  "demo_mint721 = \<lparr>m721_contractAddress = ''0x123'', m721_recipient = ''0xDEF'', m721_uri = ''ipfs://1''\<rparr>"

definition demo_mint1155 :: MintERC1155Request where
  "demo_mint1155 = \<lparr>m1155_contractAddress = ''0xABC'', m1155_recipient = ''0xDEF'',
                     m1155_id = ''7'', m1155_amount = 3\<rparr>"

section \<open>Unfolding sets for the examples\<close>

lemmas demo_defs = initial_world_def demo_deps_def demo_tx_def offline_deps_def key_refused_def
  signer_rejects_def prepare_rejects_def send_rejects_def abc_binding_def nft123_binding_def
  unknown_binding_def world_abc_def world_123_def world_unknown_def transfer_of_def
  demo_mint721_def demo_mint1155_def

lemmas run_defs = cacheGet_def cache_read_def Object_prototype_def transferNft_def
  mintERC721Token_def mintERC1155Token_def await_def ask_def sync_def throw_def resolved_def
  populate_def prepareAndSend_def connect_def attach_def getChainProvider_def AddressZero_def Let_def

section \<open>Operations step by step\<close>

lemma populated_append: "populated (xs @ ys) = populated xs @ populated ys"
  by (induction xs rule: populated.induct) simp_all

lemma prepared_append: "prepared (xs @ ys) = prepared xs @ prepared ys"
  by (induction xs rule: prepared.induct) simp_all

lemma await_throw: "await (throw e) f s = (Inl e, s)"
  by (simp add: await_def throw_def)

lemma cache_read_stored: "m a = Some b \<Longrightarrow> cache_read m a = Some (Stored b)"
  by (simp add: cache_read_def)

lemma cache_read_update: "cache_read (m(a \<mapsto> b)) a = Some (Stored b)"
  by (simp add: cache_read_def)

lemma cache_read_None: "cache_read m a = None \<Longrightarrow> m a = None \<and> a \<notin> set Object_prototype"
  by (simp add: cache_read_def split: option.splits if_splits)

lemma cacheGet_hit: "cache_read (cache s) a = Some v \<Longrightarrow> cacheGet d a ch s = (Inr v, s)"
  by (simp add: cacheGet_def)

lemma cacheGet_miss:
  "cache_read (cache s) a = None \<Longrightarrow>
   cacheGet d a ch s =
     (case getNftType d a ch of
        Inl e \<Rightarrow> (Inl e, s\<lparr>trace := trace s @ [Ev_getNftType a ch]\<rparr>)
      | Inr t \<Rightarrow>
          if t = UNKNOWN then
            (Inl (Error (a @ '' is not an NFT contract'')), s\<lparr>trace := trace s @ [Ev_getNftType a ch]\<rparr>)
          else
            (Inr (Stored \<lparr>contract = \<lparr>c_interface = (if t = ERC1155 then LiqERC1155_factory else LiqERC721_factory),
                                c_provider = ChainProvider ch, c_address = a\<rparr>, schema = t\<rparr>),
             s\<lparr>trace := trace s @ [Ev_getNftType a ch],
               cache := (cache s)(a \<mapsto> \<lparr>contract = \<lparr>c_interface = (if t = ERC1155 then LiqERC1155_factory else LiqERC721_factory),
                                c_provider = ChainProvider ch, c_address = a\<rparr>, schema = t\<rparr>)\<rparr>))"
  by (simp add: cacheGet_def await_def ask_def throw_def attach_def connect_def
      getChainProvider_def Let_def split: sum.splits)

lemma cacheGet_success_cached:
  assumes "cacheGet d a ch s = (Inr v, s1)"
  shows "cache_read (cache s1) a = Some v"
proof (cases "cache_read (cache s) a")
  case None
  with assms show ?thesis
    by (auto simp: cacheGet_miss cache_read_update split: sum.splits if_splits)
next
  case (Some v')
  with assms show ?thesis by (simp add: cacheGet_hit)
qed

lemma cacheGet_populated:
  "populated (trace (snd (cacheGet d a ch s))) = populated (trace s)"
  by (cases "cache_read (cache s) a")
     (auto simp: cacheGet_hit cacheGet_miss populated_append split: sum.splits)

lemma cacheGet_prepared:
  "prepared (trace (snd (cacheGet d a ch s))) = prepared (trace s)"
  by (cases "cache_read (cache s) a")
     (auto simp: cacheGet_hit cacheGet_miss prepared_append split: sum.splits)

lemma transferNft_resolved:
  assumes "cacheGet d (contractAddress rq) ch s = (Inr v, s1)"
      and "getWallet d pk ch = Inr w"
      and "getAddress d w = Inr owner"
  shows "transferNft d rq ch pk s =
     await
       (case v of
          Stored b \<Rightarrow>
            (case schema b of
               ERC721 \<Rightarrow>
                 if length (tokenIDs rq) \<noteq> 1 then
                   throw (Error (''ERC 721 transfer supports exactly 1 tokenID, received '' @ join (tokenIDs rq)))
                 else populate d (contract b)
                        (safeTransferFrom_address_address_uint256 owner (receiver rq) (index0 (tokenIDs rq)))
             | ERC1155 \<Rightarrow>
                 if length (tokenIDs rq) > 1 then
                   populate d (contract b)
                     (safeBatchTransferFrom owner (receiver rq) (tokenIDs rq) (amounts rq) ''0x'')
                 else
                   (case amounts rq of
                      None \<Rightarrow> throw TypeError
                    | Some ams \<Rightarrow>
                        populate d (contract b)
                          (safeTransferFrom owner (receiver rq) (index0 (tokenIDs rq)) (index0 ams) ''0x''))
             | UNKNOWN \<Rightarrow> throw (Error (''Unsupported NFT type: '' @ NftType_toString d (schema b))))
        | Inherited n \<Rightarrow> throw (Error ''Unsupported NFT type: undefined''))
       (prepareAndSend d w owner ch)
       (s1\<lparr>trace := trace s1 @ [Ev_getAddress w]\<rparr>)"
  using assms by (cases v) (simp_all add: transferNft_def await_def ask_def sync_def Let_def)

lemma transferNft_signer_rejects:
  assumes "cacheGet d (contractAddress rq) ch s = (Inr v, s1)"
      and "getWallet d pk ch = Inr w"
      and "getAddress d w = Inl e"
  shows "transferNft d rq ch pk s = (Inl e, s1\<lparr>trace := trace s1 @ [Ev_getAddress w]\<rparr>)"
  using assms by (simp add: transferNft_def await_def ask_def sync_def Let_def)

lemma transferNft_key_refused:
  assumes "cacheGet d (contractAddress rq) ch s = (Inr v, s1)"
      and "getWallet d pk ch = Inl e"
  shows "transferNft d rq ch pk s = (Inl e, s1)"
  using assms by (simp add: transferNft_def await_def sync_def)

lemma populated_prepareAndSend:
  "populated (trace (snd (prepareAndSend d w owner ch tx s))) = populated (trace s)"
  by (simp add: prepareAndSend_def await_def ask_def resolved_def Let_def populated_append
      split: sum.splits)

lemma populated_populate_then_send:
  "populated (trace (snd (await (populate d c k) (prepareAndSend d w owner ch) s)))
     = populated (trace s) @ [(c, k)]"
  by (simp add: await_def populate_def ask_def populated_prepareAndSend populated_append
      split: sum.splits)

lemma cache_prepareAndSend: "cache (snd (prepareAndSend d w owner ch tx s)) = cache s"
  by (simp add: prepareAndSend_def await_def ask_def resolved_def Let_def split: sum.splits)

lemma cache_populate_then_send:
  "cache (snd (await (populate d c k) (prepareAndSend d w owner ch) s)) = cache s"
  by (simp add: await_def populate_def ask_def cache_prepareAndSend split: sum.splits)

lemma cache_transferNft:
  "cache (snd (transferNft d rq ch pk s)) = cache (snd (cacheGet d (contractAddress rq) ch s))"
proof (cases "cacheGet d (contractAddress rq) ch s")
  case (Pair r s1)
  show ?thesis
  proof (cases r)
    case (Inl e)
    with Pair show ?thesis by (simp add: transferNft_def await_def)
  next
    case (Inr v)
    note res = Pair [unfolded Inr]
    show ?thesis
    proof (cases "getWallet d pk ch")
      case (Inl e)
      show ?thesis by (simp add: transferNft_key_refused [OF res Inl] res)
    next
      case (Inr w)
      note wal = Inr
      show ?thesis
      proof (cases "getAddress d w")
        case (Inl e)
        show ?thesis by (simp add: transferNft_signer_rejects [OF res wal Inl] res)
      next
        case (Inr owner)
        have "cache (snd (transferNft d rq ch pk s)) = cache s1"
          unfolding transferNft_resolved [OF res wal Inr]
          by (cases v)
             (simp_all add: cache_populate_then_send await_throw
                split: NftType.splits option.splits)
        then show ?thesis by (simp add: res)
      qed
    qed
  qed
qed

lemma cache_mintERC721Token: "cache (snd (mintERC721Token d r7 ch pk s)) = cache s"
  by (simp add: mintERC721Token_def Let_def await_def ask_def sync_def
      cache_populate_then_send [unfolded await_def] split: sum.splits)

lemma cache_mintERC1155Token: "cache (snd (mintERC1155Token d r5 ch pk s)) = cache s"
  by (simp add: mintERC1155Token_def Let_def await_def ask_def sync_def
      cache_populate_then_send [unfolded await_def] split: sum.splits)

lemma cache_createERC1155Collection: "cache (snd (createERC1155Collection d c5 ch pk s)) = cache s"
  by (simp add: createERC1155Collection_def Let_def await_def ask_def sync_def resolved_def
      split: sum.splits)

lemma cache_createERC721Collection: "cache (snd (createERC721Collection d c7 ch pk s)) = cache s"
  by (simp add: createERC721Collection_def Let_def await_def ask_def sync_def resolved_def
      split: sum.splits)

lemma demo_resolve_abc:
  "cacheGet demo_deps (contractAddress (transfer_of ''0xABC'' ids ams)) 1 initial_world =
     (Inr (Stored abc_binding), world_abc)"
  by (simp add: demo_defs run_defs)

lemma demo_resolve_123:
  "cacheGet demo_deps (contractAddress (transfer_of ''0x123'' ids ams)) 1 initial_world =
     (Inr (Stored nft123_binding), world_123)"
  by (simp add: demo_defs run_defs)

lemma demo_wallet: "getWallet demo_deps (Inl ''key'') 1 = Inr (Wallet ''key'' (ChainProvider 1))"
  by (simp add: demo_defs getChainProvider_def)

lemma demo_signer: "getAddress demo_deps (Wallet ''key'' (ChainProvider 1)) = Inr ''0xA11CE''"
  by (simp add: demo_defs)

section \<open>Transfer: the call that is built\<close>

text \<open>
  Claim C1, amended. Let the binding that \<open>cacheGet\<close> returns have schema \<open>ERC1155\<close>
  and let the signer's address resolve to \<open>owner\<close>. With more than one token id the
  transfer asks the cached contract to populate exactly one call,
  \<open>safeBatchTransferFrom(owner, receiver, tokenIDs, amounts, "0x")\<close>, with \<open>amounts\<close>
  handed over as it is; with at most one token id, and \<open>amounts\<close> present, exactly one
  call \<open>safeTransferFrom(owner, receiver, tokenIDs[0], amounts[0], "0x")\<close>. Both calls
  carry the same owner and receiver. As the claim is written, for every request, it
  fails: with one token id and no \<open>amounts\<close>, reading \<open>amounts![0]\<close> raises a
  \<open>TypeError\<close> and no call is built (the counterexample below).
\<close>

theorem transferNft_ERC1155_call:
  assumes "cacheGet d (contractAddress rq) ch s = (Inr (Stored b), s1)"
      and "schema b = ERC1155"
      and "getWallet d pk ch = Inr w"
      and "getAddress d w = Inr owner"
      and "length (tokenIDs rq) \<le> 1 \<Longrightarrow> amounts rq = Some ams"
  shows "populated (trace (snd (transferNft d rq ch pk s))) =
           populated (trace s) @
           [(contract b,
             if length (tokenIDs rq) > 1
             then safeBatchTransferFrom owner (receiver rq) (tokenIDs rq) (amounts rq) ''0x''
             else safeTransferFrom owner (receiver rq) (index0 (tokenIDs rq)) (index0 ams) ''0x'')]"
proof -
  have s1: "populated (trace s1) = populated (trace s)"
    using cacheGet_populated [of d "contractAddress rq" ch s] assms(1) by simp
  show ?thesis
  proof (cases "length (tokenIDs rq) > 1")
    case True
    then show ?thesis
      using s1 assms(2)
      by (simp add: transferNft_resolved [OF assms(1) assms(3) assms(4)]
          populated_populate_then_send populated_append)
  next
    case False
    then have "amounts rq = Some ams" using assms(5) by simp
    with False show ?thesis
      using s1 assms(2)
      by (simp add: transferNft_resolved [OF assms(1) assms(3) assms(4)]
          populated_populate_then_send populated_append)
  qed
qed

theorem transferNft_ERC1155_call_witness:
  "populated (trace (snd (transferNft demo_deps (transfer_of ''0xABC'' [''7''] (Some [3])) 1
                            (Inl ''key'') initial_world))) =
     [(contract abc_binding, safeTransferFrom ''0xA11CE'' ''0xDEF'' (Some ''7'') (Some 3) ''0x'')]
   \<and> populated (trace (snd (transferNft demo_deps (transfer_of ''0xABC'' [''7'', ''8''] (Some [3, 1])) 1
                            (Inl ''key'') initial_world))) =
     [(contract abc_binding,
       safeBatchTransferFrom ''0xA11CE'' ''0xDEF'' [''7'', ''8''] (Some [3, 1]) ''0x'')]"
proof -
  have sch: "schema abc_binding = ERC1155" by (simp add: abc_binding_def)
  have single: "amounts (transfer_of ''0xABC'' [''7''] (Some [3])) = Some [3]"
    by (simp add: transfer_of_def)
  have batch: "amounts (transfer_of ''0xABC'' [''7'', ''8''] (Some [3, 1])) = Some [3, 1]"
    by (simp add: transfer_of_def)
  show ?thesis
    using transferNft_ERC1155_call [OF demo_resolve_abc sch demo_wallet demo_signer single]
      transferNft_ERC1155_call [OF demo_resolve_abc sch demo_wallet demo_signer batch]
    by (simp add: transfer_of_def initial_world_def)
qed

theorem transferNft_ERC1155_absent_amounts_counterexample:
  "fst (transferNft demo_deps (transfer_of ''0xABC'' [''7''] None) 1 (Inl ''key'') initial_world)
     = Inl TypeError
   \<and> populated (trace (snd (transferNft demo_deps (transfer_of ''0xABC'' [''7''] None) 1
                              (Inl ''key'') initial_world))) = []"
  by (simp add: demo_defs run_defs)

text \<open>
  Claim C2, amended. Let the binding that \<open>cacheGet\<close> returns have schema \<open>ERC721\<close>
  and let \<open>tokenIDs\<close> have a length other than 1. Then the transfer fails; after the
  resolution it calls no collaborator but the signer's \<open>getAddress\<close> (and not even
  that when the private key is refused), so nothing is populated and
  \<open>prepareTransaction\<close> is never called; and when the signer is made and its address
  resolves, the error is \<open>Error("ERC 721 transfer supports exactly 1 tokenID,
  received " + tokenIDs.join())\<close>, whose message ends with the offending ids. As the
  claim is written, without the condition on the signer, it fails: the owner is read on
  line 54, before the switch, so with a signer that rejects the transfer fails with the
  signer's error, not with the arity error (the counterexample below).
\<close>

theorem transferNft_ERC721_arity:
  assumes "cacheGet d (contractAddress rq) ch s = (Inr (Stored b), s1)"
      and "schema b = ERC721"
      and "length (tokenIDs rq) \<noteq> 1"
  shows "(\<exists>e. fst (transferNft d rq ch pk s) = Inl e)
       \<and> snd (transferNft d rq ch pk s) =
           s1\<lparr>trace := trace s1 @ (case getWallet d pk ch of
                                     Inl e \<Rightarrow> []
                                   | Inr w \<Rightarrow> [Ev_getAddress w])\<rparr>
       \<and> prepared (trace (snd (transferNft d rq ch pk s))) = prepared (trace s)
       \<and> populated (trace (snd (transferNft d rq ch pk s))) = populated (trace s)
       \<and> (\<forall>w owner. getWallet d pk ch = Inr w \<and> getAddress d w = Inr owner \<longrightarrow>
            fst (transferNft d rq ch pk s) =
              Inl (Error (''ERC 721 transfer supports exactly 1 tokenID, received '' @ join (tokenIDs rq))))"
proof -
  have pre: "prepared (trace s1) = prepared (trace s)"
    using cacheGet_prepared [of d "contractAddress rq" ch s] assms(1) by simp
  have pop: "populated (trace s1) = populated (trace s)"
    using cacheGet_populated [of d "contractAddress rq" ch s] assms(1) by simp
  show ?thesis
  proof (cases "getWallet d pk ch")
    case (Inl e)
    then show ?thesis
      using pre pop by (simp add: transferNft_key_refused [OF assms(1) Inl])
  next
    case (Inr w)
    note wal = Inr
    show ?thesis
    proof (cases "getAddress d w")
      case (Inl e)
      then show ?thesis
        using pre pop wal
        by (simp add: transferNft_signer_rejects [OF assms(1) wal Inl] prepared_append
            populated_append)
    next
      case (Inr owner)
      then show ?thesis
        using assms(2,3) pre pop wal
        by (simp add: transferNft_resolved [OF assms(1) wal Inr] await_throw prepared_append
            populated_append)
    qed
  qed
qed

theorem transferNft_ERC721_arity_witness:
  "fst (transferNft demo_deps (transfer_of ''0x123'' [] None) 1 (Inl ''key'') initial_world) =
     Inl (Error ''ERC 721 transfer supports exactly 1 tokenID, received '')
   \<and> fst (transferNft demo_deps (transfer_of ''0x123'' [''1'', ''2''] None) 1 (Inl ''key'') initial_world) =
     Inl (Error ''ERC 721 transfer supports exactly 1 tokenID, received 1,2'')
   \<and> fst (transferNft demo_deps (transfer_of ''0x123'' [''1'', ''2'', ''3'', ''4'', ''5''] None) 1
            (Inl ''key'') initial_world) =
     Inl (Error ''ERC 721 transfer supports exactly 1 tokenID, received 1,2,3,4,5'')
   \<and> trace (snd (transferNft demo_deps (transfer_of ''0x123'' [''1'', ''2''] None) 1 (Inl ''key'')
                    initial_world)) =
     [Ev_getNftType ''0x123'' 1, Ev_getAddress (Wallet ''key'' (ChainProvider 1))]
   \<and> prepared (trace (snd (transferNft demo_deps (transfer_of ''0x123'' [''1'', ''2''] None) 1
                             (Inl ''key'') initial_world))) = []"
proof -
  have sch: "schema nft123_binding = ERC721" by (simp add: nft123_binding_def)
  have l0: "length (tokenIDs (transfer_of ''0x123'' [] None)) \<noteq> 1"
    and l2: "length (tokenIDs (transfer_of ''0x123'' [''1'', ''2''] None)) \<noteq> 1"
    and l5: "length (tokenIDs (transfer_of ''0x123'' [''1'', ''2'', ''3'', ''4'', ''5''] None)) \<noteq> 1"
    by (simp_all add: transfer_of_def)
  show ?thesis
    using transferNft_ERC721_arity [OF demo_resolve_123 sch l0, of "Inl ''key''"]
      transferNft_ERC721_arity [OF demo_resolve_123 sch l2, of "Inl ''key''"]
      transferNft_ERC721_arity [OF demo_resolve_123 sch l5, of "Inl ''key''"]
      demo_wallet demo_signer
    by (simp add: transfer_of_def world_123_def initial_world_def)
qed

theorem transferNft_ERC721_rejecting_signer_counterexample:
  "fst (transferNft signer_rejects (transfer_of ''0x123'' [''1'', ''2''] None) 1 (Inl ''key'')
          initial_world) = Inl (Error ''rejected'')
   \<and> fst (transferNft signer_rejects (transfer_of ''0x123'' [''1'', ''2''] None) 1 (Inl ''key'')
          initial_world) \<noteq>
       Inl (Error ''ERC 721 transfer supports exactly 1 tokenID, received 1,2'')
   \<and> fst (transferNft key_refused (transfer_of ''0x123'' [''1'', ''2''] None) 1 (Inl ''key'')
          initial_world) = Inl (Error ''invalid private key'')"
  by (simp add: demo_defs run_defs)

section \<open>The cache\<close>



text \<open>
  Claim C6. The cache is keyed by addresses alone. If address \<open>a\<close> is cached, a
  resolution of \<open>a\<close> with any chain id \<open>ch\<close> and any collaborators returns the cached
  binding and changes nothing, the trace included: the registry is not consulted, and
  the binding keeps the provider of the chain it was first resolved on.
\<close>

theorem cacheGet_address_only_key:
  assumes "cache s a = Some b"
  shows "cacheGet d a ch s = (Inr (Stored b), s)"
  using assms by (simp add: cacheGet_hit cache_read_stored)

theorem cacheGet_address_only_key_witness:
  "cache world_abc ''0xABC'' = Some abc_binding
   \<and> cacheGet offline_deps ''0xABC'' 137 world_abc = (Inr (Stored abc_binding), world_abc)
   \<and> c_provider (contract abc_binding) = ChainProvider 1"
proof -
  have cached: "cache world_abc ''0xABC'' = Some abc_binding"
    by (simp add: world_abc_def)
  show ?thesis
    using cached cacheGet_address_only_key [OF cached, of offline_deps 137]
    by (simp add: abc_binding_def)
qed

lemma cacheGet_inherited:
  assumes "cache s n = None" and "n \<in> set Object_prototype"
  shows "cacheGet d n ch s = (Inr (Inherited n), s)"
  using assms by (simp add: cacheGet_hit cache_read_def)

lemma cacheGet_unknown_rejected_on_miss:
  "(cache_read (cache s) a = None \<and> getNftType d a ch = Inr UNKNOWN \<longrightarrow>
      cacheGet d a ch s =
        (Inl (Error (a @ '' is not an NFT contract'')), s\<lparr>trace := trace s @ [Ev_getNftType a ch]\<rparr>))
   \<and> (cache (snd (cacheGet d a ch s)) \<noteq> cache s \<longrightarrow>
        (\<exists>t. getNftType d a ch = Inr t \<and> t \<noteq> UNKNOWN \<and> cache_read (cache s) a = None
           \<and> cache (snd (cacheGet d a ch s)) =
               (cache s)(a \<mapsto> \<lparr>contract = \<lparr>c_interface = (if t = ERC1155 then LiqERC1155_factory
                                                              else LiqERC721_factory),
                                              c_provider = ChainProvider ch, c_address = a\<rparr>,
                                  schema = t\<rparr>)))
   \<and> cache (snd (transferNft d rq ch pk s)) = cache (snd (cacheGet d (contractAddress rq) ch s))"
proof (intro conjI impI)
  assume "cache_read (cache s) a = None \<and> getNftType d a ch = Inr UNKNOWN"
  then show "cacheGet d a ch s =
      (Inl (Error (a @ '' is not an NFT contract'')), s\<lparr>trace := trace s @ [Ev_getNftType a ch]\<rparr>)"
    by (simp add: cacheGet_miss)
next
  assume changed: "cache (snd (cacheGet d a ch s)) \<noteq> cache s"
  then have miss: "cache_read (cache s) a = None"
    by (cases "cache_read (cache s) a") (simp_all add: cacheGet_hit)
  with changed show "\<exists>t. getNftType d a ch = Inr t \<and> t \<noteq> UNKNOWN \<and> cache_read (cache s) a = None
           \<and> cache (snd (cacheGet d a ch s)) =
               (cache s)(a \<mapsto> \<lparr>contract = \<lparr>c_interface = (if t = ERC1155 then LiqERC1155_factory
                                                              else LiqERC721_factory),
                                              c_provider = ChainProvider ch, c_address = a\<rparr>,
                                  schema = t\<rparr>)"
    by (cases "getNftType d a ch") (auto simp: cacheGet_miss split: if_splits)
next
  show "cache (snd (transferNft d rq ch pk s)) = cache (snd (cacheGet d (contractAddress rq) ch s))"
    by (rule cache_transferNft)
qed

text \<open>
  Claim C4: the code breaks it. For an address that a read of the cache does not find,
  the claim holds (lemma \<open>cacheGet_unknown_rejected_on_miss\<close>): a detection that
  answers \<open>UNKNOWN\<close> makes the resolution fail with \<open>Error(address + " is not an NFT
  contract")\<close>, the cache is untouched, and the cache is written only after a
  detection that answered another schema. But the cache is a plain object read by
  truthiness, so for an address that is the name of an inherited member, such as
  \<open>constructor\<close> or \<open>__proto__\<close>, the read finds that member on the empty cache: the
  registry, which would answer \<open>UNKNOWN\<close>, is never asked, and the resolution
  succeeds with a value that is no \<open>NftInfo\<close>, where \<open>0xBAD\<close> is rejected.
\<close>

theorem cacheGet_inherited_name_not_rejected:
  "getNftType demo_deps ''constructor'' 1 = Inr UNKNOWN
   \<and> cacheGet demo_deps ''constructor'' 1 initial_world =
       (Inr (Inherited ''constructor''), initial_world)
   \<and> getNftType demo_deps ''__proto__'' 1 = Inr UNKNOWN
   \<and> cacheGet demo_deps ''__proto__'' 1 initial_world =
       (Inr (Inherited ''__proto__''), initial_world)
   \<and> getNftType demo_deps ''0xBAD'' 1 = Inr UNKNOWN
   \<and> cacheGet demo_deps ''0xBAD'' 1 initial_world =
       (Inl (Error ''0xBAD is not an NFT contract''),
        \<lparr>cache = Map.empty, trace = [Ev_getNftType ''0xBAD'' 1]\<rparr>)"
  by (simp add: demo_defs run_defs)

section \<open>Transfer: the switch over the schema\<close>

text \<open>
  Claim C5, amended. Let \<open>cacheGet\<close> return \<open>v\<close>, and let the signer be made and its
  address resolve to \<open>owner\<close>. Then exactly one of these happens, by the schema read
  off \<open>v\<close> and the shape of the request. Schema \<open>ERC721\<close> and one token id \<open>t\<close>: the
  transfer populates the one call \<open>safeTransferFrom(owner, receiver, t)\<close> on the
  cached contract and goes on to prepare and send it. Schema \<open>ERC721\<close> and any other
  number of ids: it fails with the arity error. Schema \<open>ERC1155\<close> and more than one
  id: it populates \<open>safeBatchTransferFrom(owner, receiver, tokenIDs, amounts, "0x")\<close>.
  Schema \<open>ERC1155\<close>, at most one id and \<open>amounts\<close> present: it populates
  \<open>safeTransferFrom(owner, receiver, tokenIDs[0], amounts[0], "0x")\<close>. Schema
  \<open>ERC1155\<close>, at most one id and no \<open>amounts\<close>: it fails with a \<open>TypeError\<close>. Any
  other schema, \<open>UNKNOWN\<close> or the \<open>undefined\<close> read off an inherited member: it fails
  with \<open>Error("Unsupported NFT type: " + schema)\<close>. In the failing cases nothing is
  populated, prepared or sent. And whenever the transfer returns a transaction hash,
  one call of the schema's shape was populated, prepared and sent, and the hash is the
  signer's: no schema value gives a silent no-op. As the claim is written, "either
  builds a transaction or fails with UnsupportedSchema", it fails: an \<open>ERC721\<close> transfer
  of two token ids builds nothing and fails with the arity error (the counterexample
  below).
\<close>

theorem transferNft_branch_exhaustive:
  assumes "cacheGet d (contractAddress rq) ch s = (Inr v, s1)"
      and "getWallet d pk ch = Inr w"
      and "getAddress d w = Inr owner"
  shows
    "((\<exists>b t. v = Stored b \<and> schema b = ERC721 \<and> tokenIDs rq = [t]
          \<and> transferNft d rq ch pk s =
              await (populate d (contract b)
                       (safeTransferFrom_address_address_uint256 owner (receiver rq) (Some t)))
                (prepareAndSend d w owner ch) (s1\<lparr>trace := trace s1 @ [Ev_getAddress w]\<rparr>)
          \<and> populated (trace (snd (transferNft d rq ch pk s))) =
              populated (trace s) @
                [(contract b, safeTransferFrom_address_address_uint256 owner (receiver rq) (Some t))])
      \<or> (\<exists>b. v = Stored b \<and> schema b = ERC721 \<and> length (tokenIDs rq) \<noteq> 1
          \<and> transferNft d rq ch pk s =
              (Inl (Error (''ERC 721 transfer supports exactly 1 tokenID, received ''
                           @ join (tokenIDs rq))),
               s1\<lparr>trace := trace s1 @ [Ev_getAddress w]\<rparr>))
      \<or> (\<exists>b. v = Stored b \<and> schema b = ERC1155 \<and> 1 < length (tokenIDs rq)
          \<and> transferNft d rq ch pk s =
              await (populate d (contract b)
                       (safeBatchTransferFrom owner (receiver rq) (tokenIDs rq) (amounts rq) ''0x''))
                (prepareAndSend d w owner ch) (s1\<lparr>trace := trace s1 @ [Ev_getAddress w]\<rparr>)
          \<and> populated (trace (snd (transferNft d rq ch pk s))) =
              populated (trace s) @
                [(contract b,
                  safeBatchTransferFrom owner (receiver rq) (tokenIDs rq) (amounts rq) ''0x'')])
      \<or> (\<exists>b ams. v = Stored b \<and> schema b = ERC1155 \<and> length (tokenIDs rq) \<le> 1
          \<and> amounts rq = Some ams
          \<and> transferNft d rq ch pk s =
              await (populate d (contract b)
                       (safeTransferFrom owner (receiver rq) (index0 (tokenIDs rq)) (index0 ams) ''0x''))
                (prepareAndSend d w owner ch) (s1\<lparr>trace := trace s1 @ [Ev_getAddress w]\<rparr>)
          \<and> populated (trace (snd (transferNft d rq ch pk s))) =
              populated (trace s) @
                [(contract b,
                  safeTransferFrom owner (receiver rq) (index0 (tokenIDs rq)) (index0 ams) ''0x'')])
      \<or> (\<exists>b. v = Stored b \<and> schema b = ERC1155 \<and> length (tokenIDs rq) \<le> 1
          \<and> amounts rq = None
          \<and> transferNft d rq ch pk s =
              (Inl TypeError, s1\<lparr>trace := trace s1 @ [Ev_getAddress w]\<rparr>))
      \<or> (\<exists>b. v = Stored b \<and> schema b = UNKNOWN
          \<and> transferNft d rq ch pk s =
              (Inl (Error (''Unsupported NFT type: '' @ NftType_toString d UNKNOWN)),
               s1\<lparr>trace := trace s1 @ [Ev_getAddress w]\<rparr>))
      \<or> (\<exists>n. v = Inherited n
          \<and> transferNft d rq ch pk s =
              (Inl (Error ''Unsupported NFT type: undefined''),
               s1\<lparr>trace := trace s1 @ [Ev_getAddress w]\<rparr>)))
     \<and> (\<forall>h s'. transferNft d rq ch pk s = (Inr h, s') \<longrightarrow>
          (\<exists>b k tx ptx rsp.
             v = Stored b
             \<and> ((schema b = ERC721 \<and> (\<exists>t. tokenIDs rq = [t] \<and>
                    k = safeTransferFrom_address_address_uint256 owner (receiver rq) (Some t)))
                \<or> (schema b = ERC1155 \<and> 1 < length (tokenIDs rq) \<and>
                    k = safeBatchTransferFrom owner (receiver rq) (tokenIDs rq) (amounts rq) ''0x'')
                \<or> (schema b = ERC1155 \<and> length (tokenIDs rq) \<le> 1 \<and> (\<exists>ams. amounts rq = Some ams \<and>
                    k = safeTransferFrom owner (receiver rq) (index0 (tokenIDs rq)) (index0 ams) ''0x'')))
             \<and> populateTransaction d (contract b) k = Inr tx
             \<and> prepareTransaction d (tx\<lparr>tx_from := Some owner, tx_chainId := Some ch\<rparr>) ch = Inr ptx
             \<and> sendTransaction d w ptx = Inr rsp
             \<and> h = hash rsp
             \<and> trace s' = trace s1 @
                  [Ev_getAddress w,
                   Ev_populateTransaction (contract b) k,
                   Ev_prepareTransaction (tx\<lparr>tx_from := Some owner, tx_chainId := Some ch\<rparr>) ch,
                   Ev_sendTransaction w ptx]))"
    (is "?total \<and> ?success")
proof
  note run = transferNft_resolved [OF assms]
  have pop: "populated (trace s1) = populated (trace s)"
    using cacheGet_populated [of d "contractAddress rq" ch s] assms(1) by simp
  show ?total
  proof (cases v)
    case (Inherited n)
    then show ?thesis by (simp add: run await_throw)
  next
    case (Stored b)
    show ?thesis
    proof (cases "schema b")
      case UNKNOWN
      with Stored show ?thesis by (simp add: run await_throw)
    next
      case ERC721
      show ?thesis
      proof (cases "length (tokenIDs rq) = 1")
        case False
        with Stored ERC721 show ?thesis by (simp add: run await_throw)
      next
        case True
        then obtain t where t: "tokenIDs rq = [t]"
          by (cases "tokenIDs rq") auto
        with Stored ERC721 pop show ?thesis
          by (simp add: run populated_populate_then_send populated_append)
      qed
    next
      case ERC1155
      show ?thesis
      proof (cases "1 < length (tokenIDs rq)")
        case True
        with Stored ERC1155 pop show ?thesis
          by (simp add: run populated_populate_then_send populated_append)
      next
        case False
        show ?thesis
        proof (cases "amounts rq")
          case None
          with False Stored ERC1155 show ?thesis
            by (simp add: run await_throw)
        next
          case (Some ams)
          with False Stored ERC1155 pop show ?thesis
            by (simp add: run populated_populate_then_send populated_append)
        qed
      qed
    qed
  qed
next
  note run = transferNft_resolved [OF assms]
  show ?success
  proof (intro allI impI)
    fix h s'
    assume ok: "transferNft d rq ch pk s = (Inr h, s')"
    show "\<exists>b k tx ptx rsp.
             v = Stored b
             \<and> ((schema b = ERC721 \<and> (\<exists>t. tokenIDs rq = [t] \<and>
                    k = safeTransferFrom_address_address_uint256 owner (receiver rq) (Some t)))
                \<or> (schema b = ERC1155 \<and> 1 < length (tokenIDs rq) \<and>
                    k = safeBatchTransferFrom owner (receiver rq) (tokenIDs rq) (amounts rq) ''0x'')
                \<or> (schema b = ERC1155 \<and> length (tokenIDs rq) \<le> 1 \<and> (\<exists>ams. amounts rq = Some ams \<and>
                    k = safeTransferFrom owner (receiver rq) (index0 (tokenIDs rq)) (index0 ams) ''0x'')))
             \<and> populateTransaction d (contract b) k = Inr tx
             \<and> prepareTransaction d (tx\<lparr>tx_from := Some owner, tx_chainId := Some ch\<rparr>) ch = Inr ptx
             \<and> sendTransaction d w ptx = Inr rsp
             \<and> h = hash rsp
             \<and> trace s' = trace s1 @
                  [Ev_getAddress w,
                   Ev_populateTransaction (contract b) k,
                   Ev_prepareTransaction (tx\<lparr>tx_from := Some owner, tx_chainId := Some ch\<rparr>) ch,
                   Ev_sendTransaction w ptx]"
    proof (cases v)
      case (Inherited n)
      with ok show ?thesis by (simp add: run await_throw)
    next
      case (Stored b)
      show ?thesis
      proof (cases "schema b")
        case ERC721
        with ok Stored show ?thesis
          unfolding run
          by (cases "tokenIDs rq"; cases "tl (tokenIDs rq)")
             (auto simp: await_def throw_def populate_def ask_def prepareAndSend_def resolved_def
                Let_def split: sum.splits if_splits)
      next
        case ERC1155
        with ok Stored show ?thesis
          unfolding run
          by (auto simp: await_def throw_def populate_def ask_def prepareAndSend_def resolved_def
                Let_def split: sum.splits if_splits option.splits)
      next
        case UNKNOWN
        with ok Stored show ?thesis by (simp add: run await_throw)
      qed
    qed
  qed
qed

theorem transferNft_branch_exhaustive_witness:
  "populated (trace (snd (transferNft demo_deps (transfer_of ''0x123'' [''1''] None) 1 (Inl ''key'')
                            initial_world))) =
     [(contract nft123_binding,
       safeTransferFrom_address_address_uint256 ''0xA11CE'' ''0xDEF'' (Some ''1''))]
   \<and> transferNft demo_deps (transfer_of ''0xBAD'' [''1''] None) 1 (Inl ''key'') world_unknown =
     (Inl (Error ''Unsupported NFT type: UNKNOWN''),
      \<lparr>cache = [''0xBAD'' \<mapsto> unknown_binding],
       trace = [Ev_getAddress (Wallet ''key'' (ChainProvider 1))]\<rparr>)
   \<and> transferNft demo_deps (transfer_of ''toString'' [''1''] None) 1 (Inl ''key'') initial_world =
     (Inl (Error ''Unsupported NFT type: undefined''),
      \<lparr>cache = Map.empty, trace = [Ev_getAddress (Wallet ''key'' (ChainProvider 1))]\<rparr>)
   \<and> fst (transferNft demo_deps (transfer_of ''0xABC'' [''1'', ''2''] (Some [5, 10])) 1 (Inl ''key'')
            initial_world) = Inr ''0xHASH''
   \<and> (\<exists>tx ptx.
         trace (snd (transferNft demo_deps (transfer_of ''0xABC'' [''1'', ''2''] (Some [5, 10])) 1
                       (Inl ''key'') initial_world)) =
           [Ev_getNftType ''0xABC'' 1,
            Ev_getAddress (Wallet ''key'' (ChainProvider 1)),
            Ev_populateTransaction (contract abc_binding)
              (safeBatchTransferFrom ''0xA11CE'' ''0xDEF'' [''1'', ''2''] (Some [5, 10]) ''0x''),
            Ev_prepareTransaction tx 1,
            Ev_sendTransaction (Wallet ''key'' (ChainProvider 1)) ptx])"
proof -
  have hit: "cacheGet demo_deps (contractAddress (transfer_of ''0xBAD'' [''1''] None)) 1 world_unknown
               = (Inr (Stored unknown_binding), world_unknown)"
    by (simp add: demo_defs run_defs)
  have inh: "cacheGet demo_deps (contractAddress (transfer_of ''toString'' [''1''] None)) 1 initial_world
               = (Inr (Inherited ''toString''), initial_world)"
    by (simp add: demo_defs run_defs)
  have ok: "transferNft demo_deps (transfer_of ''0xABC'' [''1'', ''2''] (Some [5, 10])) 1 (Inl ''key'')
              initial_world =
            (Inr ''0xHASH'',
             snd (transferNft demo_deps (transfer_of ''0xABC'' [''1'', ''2''] (Some [5, 10])) 1
                    (Inl ''key'') initial_world))"
    by (simp add: demo_defs run_defs)
  have one: "populated (trace (snd (transferNft demo_deps (transfer_of ''0x123'' [''1''] None) 1
                                     (Inl ''key'') initial_world))) =
     [(contract nft123_binding,
       safeTransferFrom_address_address_uint256 ''0xA11CE'' ''0xDEF'' (Some ''1''))]"
    using transferNft_branch_exhaustive
            [OF demo_resolve_123 [of "[''1'']" None] demo_wallet demo_signer, THEN conjunct1]
    by (auto simp: transfer_of_def nft123_binding_def initial_world_def)
  have unk: "transferNft demo_deps (transfer_of ''0xBAD'' [''1''] None) 1 (Inl ''key'') world_unknown =
     (Inl (Error ''Unsupported NFT type: UNKNOWN''),
      \<lparr>cache = [''0xBAD'' \<mapsto> unknown_binding],
       trace = [Ev_getAddress (Wallet ''key'' (ChainProvider 1))]\<rparr>)"
    using transferNft_branch_exhaustive [OF hit demo_wallet demo_signer, THEN conjunct1]
    by (auto simp: unknown_binding_def demo_deps_def world_unknown_def)
  have und: "transferNft demo_deps (transfer_of ''toString'' [''1''] None) 1 (Inl ''key'') initial_world =
     (Inl (Error ''Unsupported NFT type: undefined''),
      \<lparr>cache = Map.empty, trace = [Ev_getAddress (Wallet ''key'' (ChainProvider 1))]\<rparr>)"
    using transferNft_branch_exhaustive [OF inh demo_wallet demo_signer, THEN conjunct1]
    by (auto simp: initial_world_def)
  have sent: "\<exists>tx ptx.
         trace (snd (transferNft demo_deps (transfer_of ''0xABC'' [''1'', ''2''] (Some [5, 10])) 1
                       (Inl ''key'') initial_world)) =
           [Ev_getNftType ''0xABC'' 1,
            Ev_getAddress (Wallet ''key'' (ChainProvider 1)),
            Ev_populateTransaction (contract abc_binding)
              (safeBatchTransferFrom ''0xA11CE'' ''0xDEF'' [''1'', ''2''] (Some [5, 10]) ''0x''),
            Ev_prepareTransaction tx 1,
            Ev_sendTransaction (Wallet ''key'' (ChainProvider 1)) ptx]"
    using transferNft_branch_exhaustive
            [OF demo_resolve_abc [of "[''1'', ''2'']" "Some [5, 10]"] demo_wallet demo_signer,
             THEN conjunct2, rule_format, OF ok]
    by (auto simp: transfer_of_def abc_binding_def world_abc_def)
  have hash: "fst (transferNft demo_deps (transfer_of ''0xABC'' [''1'', ''2''] (Some [5, 10])) 1
                      (Inl ''key'') initial_world) = Inr ''0xHASH''"
    by (subst ok) simp
  from one unk und hash sent show ?thesis by (intro conjI)
qed

theorem transferNft_branch_counterexample:
  "fst (transferNft demo_deps (transfer_of ''0x123'' [''1'', ''2''] None) 1 (Inl ''key'') initial_world) =
     Inl (Error ''ERC 721 transfer supports exactly 1 tokenID, received 1,2'')
   \<and> populated (trace (snd (transferNft demo_deps (transfer_of ''0x123'' [''1'', ''2''] None) 1
                              (Inl ''key'') initial_world))) = []
   \<and> fst (transferNft demo_deps (transfer_of ''0x123'' [''1'', ''2''] None) 1 (Inl ''key'') initial_world) \<noteq>
     Inl (Error (''Unsupported NFT type: '' @ NftType_toString demo_deps ERC721))"
  by (simp add: demo_defs run_defs)

section \<open>Minting\<close>

lemma populate_then_send_frame:
  "await (populate d c k) (prepareAndSend d w owner ch) (s\<lparr>cache := m\<rparr>) =
     (fst (await (populate d c k) (prepareAndSend d w owner ch) s),
      (snd (await (populate d c k) (prepareAndSend d w owner ch) s))\<lparr>cache := m\<rparr>)"
  by (simp add: await_def populate_def ask_def prepareAndSend_def resolved_def Let_def
      split: sum.splits)

lemma mintERC721Token_frame:
  "mintERC721Token d r7 ch pk (s\<lparr>cache := m\<rparr>) =
     (fst (mintERC721Token d r7 ch pk s), (snd (mintERC721Token d r7 ch pk s))\<lparr>cache := m\<rparr>)"
  by (simp add: mintERC721Token_def await_def sync_def populate_def ask_def prepareAndSend_def resolved_def
      Let_def split: sum.splits)

lemma mintERC1155Token_frame:
  "mintERC1155Token d r5 ch pk (s\<lparr>cache := m\<rparr>) =
     (fst (mintERC1155Token d r5 ch pk s), (snd (mintERC1155Token d r5 ch pk s))\<lparr>cache := m\<rparr>)"
  by (simp add: mintERC1155Token_def await_def sync_def populate_def ask_def prepareAndSend_def resolved_def
      Let_def split: sum.splits)

lemma populated_mintERC721Token:
  "populated (trace (snd (mintERC721Token d r7 ch pk s))) =
     populated (trace s) @
       (case getWallet d pk ch of
          Inl e \<Rightarrow> []
        | Inr w \<Rightarrow>
            (case getAddress d w of
               Inl e \<Rightarrow> []
             | Inr owner \<Rightarrow> [(\<lparr>c_interface = LiqERC721_factory, c_provider = ChainProvider ch,
               c_address = m721_contractAddress r7\<rparr>,
              safeMint (m721_recipient r7) (m721_uri r7))]))"
  by (simp add: mintERC721Token_def Let_def await_def sync_def ask_def connect_def attach_def
      getChainProvider_def populated_append populated_populate_then_send [unfolded await_def]
      split: sum.splits)

lemma populated_mintERC1155Token:
  "populated (trace (snd (mintERC1155Token d r5 ch pk s))) =
     populated (trace s) @
       (case getWallet d pk ch of
          Inl e \<Rightarrow> []
        | Inr w \<Rightarrow>
            (case getAddress d w of
               Inl e \<Rightarrow> []
             | Inr owner \<Rightarrow> [(\<lparr>c_interface = LiqERC1155_factory, c_provider = ChainProvider ch,
               c_address = m1155_contractAddress r5\<rparr>,
              mint (m1155_recipient r5) (m1155_id r5) (m1155_amount r5) ''0x'')]))"
  by (simp add: mintERC1155Token_def Let_def await_def sync_def ask_def connect_def attach_def
      getChainProvider_def populated_append populated_populate_then_send [unfolded await_def]
      split: sum.splits)

text \<open>
  Claim C7. Neither mint reads or writes the cache: run on a state whose cache was
  replaced by any map \<open>m\<close>, a mint gives the same result and the same state but for
  that cache; in particular the cache after a mint is the cache before it. The contract
  it asks to populate (once the signer is made and its address resolved) is built on
  the spot from the factory, the chain's provider and the request's address.
\<close>

theorem mint_bypasses_cache:
  "mintERC721Token d r7 ch pk (s\<lparr>cache := m\<rparr>) =
     (fst (mintERC721Token d r7 ch pk s), (snd (mintERC721Token d r7 ch pk s))\<lparr>cache := m\<rparr>)
   \<and> cache (snd (mintERC721Token d r7 ch pk s)) = cache s
   \<and> populated (trace (snd (mintERC721Token d r7 ch pk s))) =
       populated (trace s) @
         (case getWallet d pk ch of
            Inl e \<Rightarrow> []
          | Inr w \<Rightarrow>
              (case getAddress d w of
                 Inl e \<Rightarrow> []
               | Inr owner \<Rightarrow>
                   [(\<lparr>c_interface = LiqERC721_factory, c_provider = ChainProvider ch,
                      c_address = m721_contractAddress r7\<rparr>,
                     safeMint (m721_recipient r7) (m721_uri r7))]))
   \<and> mintERC1155Token d r5 ch pk (s\<lparr>cache := m\<rparr>) =
       (fst (mintERC1155Token d r5 ch pk s), (snd (mintERC1155Token d r5 ch pk s))\<lparr>cache := m\<rparr>)
   \<and> cache (snd (mintERC1155Token d r5 ch pk s)) = cache s
   \<and> populated (trace (snd (mintERC1155Token d r5 ch pk s))) =
       populated (trace s) @
         (case getWallet d pk ch of
            Inl e \<Rightarrow> []
          | Inr w \<Rightarrow>
              (case getAddress d w of
                 Inl e \<Rightarrow> []
               | Inr owner \<Rightarrow>
                   [(\<lparr>c_interface = LiqERC1155_factory, c_provider = ChainProvider ch,
                      c_address = m1155_contractAddress r5\<rparr>,
                     mint (m1155_recipient r5) (m1155_id r5) (m1155_amount r5) ''0x'')]))"
  using mintERC721Token_frame cache_mintERC721Token populated_mintERC721Token
    mintERC1155Token_frame cache_mintERC1155Token populated_mintERC1155Token
  by (intro conjI)

theorem mint_bypasses_cache_witness:
  "cache (snd (mintERC1155Token demo_deps demo_mint1155 1 (Inl ''key'') initial_world)) = Map.empty
   \<and> cache (snd (mintERC721Token demo_deps demo_mint721 1 (Inl ''key'') world_123)) =
       [''0x123'' \<mapsto> nft123_binding]
   \<and> populated (trace (snd (mintERC721Token demo_deps demo_mint721 1 (Inl ''key'') world_123))) =
       [(\<lparr>c_interface = LiqERC721_factory, c_provider = ChainProvider 1, c_address = ''0x123''\<rparr>,
         safeMint ''0xDEF'' ''ipfs://1'')]"
proof -
  note t = mint_bypasses_cache
    [where d = demo_deps and ?r7.0 = demo_mint721 and ch = 1 and pk = "Inl ''key''"
       and s = world_123 and m = "cache initial_world" and ?r5.0 = demo_mint1155]
  note u = mint_bypasses_cache
    [where d = demo_deps and ?r7.0 = demo_mint721 and ch = 1 and pk = "Inl ''key''"
       and s = initial_world and m = "cache world_123" and ?r5.0 = demo_mint1155]
  have a: "cache (snd (mintERC1155Token demo_deps demo_mint1155 1 (Inl ''key'') initial_world)) = Map.empty"
    using u by (simp add: initial_world_def)
  have b: "cache (snd (mintERC721Token demo_deps demo_mint721 1 (Inl ''key'') world_123)) =
       [''0x123'' \<mapsto> nft123_binding]"
    using t by (simp add: world_123_def)
  have d: "populated (trace (snd (mintERC721Token demo_deps demo_mint721 1 (Inl ''key'') world_123))) =
       [(\<lparr>c_interface = LiqERC721_factory, c_provider = ChainProvider 1, c_address = ''0x123''\<rparr>,
         safeMint ''0xDEF'' ''ipfs://1'')]"
    using t demo_wallet demo_signer by (simp add: world_123_def demo_mint721_def)
  from a b d show ?thesis by (intro conjI)
qed

lemma prepare_rejected:
  assumes "populateTransaction d c k = Inr tx"
      and "prepareTransaction d (tx\<lparr>tx_from := Some owner, tx_chainId := Some ch\<rparr>) ch = Inl e"
  shows "await (populate d c k) (prepareAndSend d w owner ch) s =
           (Inl e, s\<lparr>trace := trace s @
              [Ev_populateTransaction c k,
               Ev_prepareTransaction (tx\<lparr>tx_from := Some owner, tx_chainId := Some ch\<rparr>) ch]\<rparr>)"
  using assms by (simp add: await_def populate_def ask_def prepareAndSend_def Let_def)

lemma send_rejected:
  assumes "populateTransaction d c k = Inr tx"
      and "prepareTransaction d (tx\<lparr>tx_from := Some owner, tx_chainId := Some ch\<rparr>) ch = Inr ptx"
      and "sendTransaction d w ptx = Inl e"
  shows "await (populate d c k) (prepareAndSend d w owner ch) s =
           (Inl e, s\<lparr>trace := trace s @
              [Ev_populateTransaction c k,
               Ev_prepareTransaction (tx\<lparr>tx_from := Some owner, tx_chainId := Some ch\<rparr>) ch,
               Ev_sendTransaction w ptx]\<rparr>)"
  using assms by (simp add: await_def populate_def ask_def prepareAndSend_def Let_def)

lemma mintERC721Token_signed:
  assumes "getWallet d pk ch = Inr w" and "getAddress d w = Inr owner"
  shows "mintERC721Token d r7 ch pk s =
           await (populate d \<lparr>c_interface = LiqERC721_factory, c_provider = ChainProvider ch,
                               c_address = m721_contractAddress r7\<rparr>
                    (safeMint (m721_recipient r7) (m721_uri r7)))
             (prepareAndSend d w owner ch)
             (s\<lparr>trace := trace s @ [Ev_getAddress w]\<rparr>)"
  using assms
  by (simp add: mintERC721Token_def Let_def await_def sync_def ask_def connect_def attach_def
      getChainProvider_def)

lemma mintERC1155Token_signed:
  assumes "getWallet d pk ch = Inr w" and "getAddress d w = Inr owner"
  shows "mintERC1155Token d r5 ch pk s =
           await (populate d \<lparr>c_interface = LiqERC1155_factory, c_provider = ChainProvider ch,
                               c_address = m1155_contractAddress r5\<rparr>
                    (mint (m1155_recipient r5) (m1155_id r5) (m1155_amount r5) ''0x''))
             (prepareAndSend d w owner ch)
             (s\<lparr>trace := trace s @ [Ev_getAddress w]\<rparr>)"
  using assms
  by (simp add: mintERC1155Token_def Let_def await_def sync_def ask_def connect_def attach_def
      getChainProvider_def)

text \<open>
  Claim C8, amended. In both mints a rejection is handed to the caller as the very value
  the collaborator rejected with: if the private key is refused with \<open>e\<close> or the
  signer's \<open>getAddress\<close> rejects with \<open>e\<close>, the mint fails with \<open>e\<close>; if the
  populated transaction is rejected by \<open>prepareTransaction\<close> with \<open>e\<close>, the mint
  fails with \<open>e\<close> and nothing is sent; if \<open>sendTransaction\<close> rejects with \<open>e\<close>, the
  mint fails with \<open>e\<close>. The service wraps nothing in a PreparationFailed or
  BroadcastFailed value of its own, so where the two collaborators reject with the same
  value the caller sees the same value (the counterexample below): the two sources are
  not distinct to the caller.
\<close>

theorem mint_failures_propagate_unwrapped:
  "(getWallet d pk ch = Inl e \<longrightarrow>
      mintERC721Token d r7 ch pk s = (Inl e, s) \<and> mintERC1155Token d r5 ch pk s = (Inl e, s))
   \<and> (getWallet d pk ch = Inr w \<and> getAddress d w = Inl e \<longrightarrow>
      mintERC721Token d r7 ch pk s =
        (Inl e, s\<lparr>trace := trace s @ [Ev_getAddress w]\<rparr>)
      \<and> mintERC1155Token d r5 ch pk s =
        (Inl e, s\<lparr>trace := trace s @ [Ev_getAddress w]\<rparr>))
   \<and> (getWallet d pk ch = Inr w \<and> getAddress d w = Inr owner
        \<and> populateTransaction d
             \<lparr>c_interface = LiqERC721_factory, c_provider = ChainProvider ch,
              c_address = m721_contractAddress r7\<rparr>
             (safeMint (m721_recipient r7) (m721_uri r7)) = Inr tx
        \<and> prepareTransaction d (tx\<lparr>tx_from := Some owner, tx_chainId := Some ch\<rparr>) ch = Inl e \<longrightarrow>
      mintERC721Token d r7 ch pk s =
        (Inl e, s\<lparr>trace := trace s @
           [Ev_getAddress w,
            Ev_populateTransaction
              \<lparr>c_interface = LiqERC721_factory, c_provider = ChainProvider ch,
               c_address = m721_contractAddress r7\<rparr>
              (safeMint (m721_recipient r7) (m721_uri r7)),
            Ev_prepareTransaction (tx\<lparr>tx_from := Some owner, tx_chainId := Some ch\<rparr>) ch]\<rparr>))
   \<and> (getWallet d pk ch = Inr w \<and> getAddress d w = Inr owner
        \<and> populateTransaction d
             \<lparr>c_interface = LiqERC721_factory, c_provider = ChainProvider ch,
              c_address = m721_contractAddress r7\<rparr>
             (safeMint (m721_recipient r7) (m721_uri r7)) = Inr tx
        \<and> prepareTransaction d (tx\<lparr>tx_from := Some owner, tx_chainId := Some ch\<rparr>) ch = Inr ptx
        \<and> sendTransaction d w ptx = Inl e \<longrightarrow>
      mintERC721Token d r7 ch pk s =
        (Inl e, s\<lparr>trace := trace s @
           [Ev_getAddress w,
            Ev_populateTransaction
              \<lparr>c_interface = LiqERC721_factory, c_provider = ChainProvider ch,
               c_address = m721_contractAddress r7\<rparr>
              (safeMint (m721_recipient r7) (m721_uri r7)),
            Ev_prepareTransaction (tx\<lparr>tx_from := Some owner, tx_chainId := Some ch\<rparr>) ch,
            Ev_sendTransaction w ptx]\<rparr>))
   \<and> (getWallet d pk ch = Inr w \<and> getAddress d w = Inr owner
        \<and> populateTransaction d
             \<lparr>c_interface = LiqERC1155_factory, c_provider = ChainProvider ch,
              c_address = m1155_contractAddress r5\<rparr>
             (mint (m1155_recipient r5) (m1155_id r5) (m1155_amount r5) ''0x'') = Inr tx
        \<and> prepareTransaction d (tx\<lparr>tx_from := Some owner, tx_chainId := Some ch\<rparr>) ch = Inl e \<longrightarrow>
      mintERC1155Token d r5 ch pk s =
        (Inl e, s\<lparr>trace := trace s @
           [Ev_getAddress w,
            Ev_populateTransaction
              \<lparr>c_interface = LiqERC1155_factory, c_provider = ChainProvider ch,
               c_address = m1155_contractAddress r5\<rparr>
              (mint (m1155_recipient r5) (m1155_id r5) (m1155_amount r5) ''0x''),
            Ev_prepareTransaction (tx\<lparr>tx_from := Some owner, tx_chainId := Some ch\<rparr>) ch]\<rparr>))
   \<and> (getWallet d pk ch = Inr w \<and> getAddress d w = Inr owner
        \<and> populateTransaction d
             \<lparr>c_interface = LiqERC1155_factory, c_provider = ChainProvider ch,
              c_address = m1155_contractAddress r5\<rparr>
             (mint (m1155_recipient r5) (m1155_id r5) (m1155_amount r5) ''0x'') = Inr tx
        \<and> prepareTransaction d (tx\<lparr>tx_from := Some owner, tx_chainId := Some ch\<rparr>) ch = Inr ptx
        \<and> sendTransaction d w ptx = Inl e \<longrightarrow>
      mintERC1155Token d r5 ch pk s =
        (Inl e, s\<lparr>trace := trace s @
           [Ev_getAddress w,
            Ev_populateTransaction
              \<lparr>c_interface = LiqERC1155_factory, c_provider = ChainProvider ch,
               c_address = m1155_contractAddress r5\<rparr>
              (mint (m1155_recipient r5) (m1155_id r5) (m1155_amount r5) ''0x''),
            Ev_prepareTransaction (tx\<lparr>tx_from := Some owner, tx_chainId := Some ch\<rparr>) ch,
            Ev_sendTransaction w ptx]\<rparr>))"
proof (intro conjI impI; (elim conjE)?)
  assume "getWallet d pk ch = Inl e"
  then show "mintERC721Token d r7 ch pk s = (Inl e, s)"
    by (simp add: mintERC721Token_def Let_def await_def sync_def)
next
  assume "getWallet d pk ch = Inl e"
  then show "mintERC1155Token d r5 ch pk s = (Inl e, s)"
    by (simp add: mintERC1155Token_def Let_def await_def sync_def)
next
  assume "getWallet d pk ch = Inr w" and "getAddress d w = Inl e"
  then show "mintERC721Token d r7 ch pk s =
      (Inl e, s\<lparr>trace := trace s @ [Ev_getAddress w]\<rparr>)"
    by (simp add: mintERC721Token_def Let_def await_def sync_def ask_def)
next
  assume "getWallet d pk ch = Inr w" and "getAddress d w = Inl e"
  then show "mintERC1155Token d r5 ch pk s =
      (Inl e, s\<lparr>trace := trace s @ [Ev_getAddress w]\<rparr>)"
    by (simp add: mintERC1155Token_def Let_def await_def sync_def ask_def)
qed (simp_all add: mintERC721Token_signed mintERC1155Token_signed prepare_rejected send_rejected)

theorem mint_failures_propagate_unwrapped_witness:
  "mintERC1155Token key_refused demo_mint1155 1 (Inl ''key'') initial_world =
     (Inl (Error ''invalid private key''), \<lparr>cache = Map.empty, trace = []\<rparr>)
   \<and> mintERC721Token signer_rejects demo_mint721 1 (Inl ''key'') initial_world =
     (Inl (Error ''rejected''),
      \<lparr>cache = Map.empty, trace = [Ev_getAddress (Wallet ''key'' (ChainProvider 1))]\<rparr>)
   \<and> trace (snd (mintERC721Token prepare_rejects demo_mint721 1 (Inl ''key'') initial_world)) =
       [Ev_getAddress (Wallet ''key'' (ChainProvider 1)),
        Ev_populateTransaction
          \<lparr>c_interface = LiqERC721_factory, c_provider = ChainProvider 1, c_address = ''0x123''\<rparr>
          (safeMint ''0xDEF'' ''ipfs://1''),
        Ev_prepareTransaction
          ((demo_tx \<lparr>c_interface = LiqERC721_factory, c_provider = ChainProvider 1,
                     c_address = ''0x123''\<rparr>)\<lparr>tx_from := Some ''0xA11CE'', tx_chainId := Some 1\<rparr>) 1]
   \<and> fst (mintERC721Token prepare_rejects demo_mint721 1 (Inl ''key'') initial_world) =
       Inl (Error ''rejected'')
   \<and> fst (mintERC721Token send_rejects demo_mint721 1 (Inl ''key'') initial_world) =
       Inl (Error ''rejected'')
   \<and> length (trace (snd (mintERC721Token send_rejects demo_mint721 1 (Inl ''key'') initial_world))) = 4
   \<and> fst (mintERC1155Token prepare_rejects demo_mint1155 1 (Inl ''key'') initial_world) =
       Inl (Error ''rejected'')
   \<and> length (trace (snd (mintERC1155Token prepare_rejects demo_mint1155 1 (Inl ''key'') initial_world))) = 3
   \<and> fst (mintERC1155Token send_rejects demo_mint1155 1 (Inl ''key'') initial_world) =
       Inl (Error ''rejected'')
   \<and> length (trace (snd (mintERC1155Token send_rejects demo_mint1155 1 (Inl ''key'') initial_world))) = 4"
proof -
  let ?c7 = "\<lparr>c_interface = LiqERC721_factory, c_provider = ChainProvider 1, c_address = ''0x123''\<rparr>"
  let ?c5 = "\<lparr>c_interface = LiqERC1155_factory, c_provider = ChainProvider 1, c_address = ''0xABC''\<rparr>"
  note sg = mint_failures_propagate_unwrapped
    [where d = signer_rejects and pk = "Inl ''key''" and ch = 1 and e = "Error ''rejected''"
       and ?r7.0 = demo_mint721 and ?r5.0 = demo_mint1155 and s = initial_world
       and w = "Wallet ''key'' (ChainProvider 1)"
       and owner = "''0xA11CE''" and tx = "demo_tx ?c7"
       and ptx = "(demo_tx ?c7)\<lparr>tx_from := Some ''0xA11CE'', tx_chainId := Some 1,
                                   tx_nonce := Some 0, tx_gasLimit := Some 21000\<rparr>"]
  note p7 = mint_failures_propagate_unwrapped
    [where d = prepare_rejects and pk = "Inl ''key''" and ch = 1 and e = "Error ''rejected''"
       and ?r7.0 = demo_mint721 and ?r5.0 = demo_mint1155 and s = initial_world
       and w = "Wallet ''key'' (ChainProvider 1)"
       and owner = "''0xA11CE''" and tx = "demo_tx ?c7"
       and ptx = "(demo_tx ?c7)\<lparr>tx_from := Some ''0xA11CE'', tx_chainId := Some 1,
                                   tx_nonce := Some 0, tx_gasLimit := Some 21000\<rparr>"]
  note s7 = mint_failures_propagate_unwrapped
    [where d = send_rejects and pk = "Inl ''key''" and ch = 1 and e = "Error ''rejected''"
       and ?r7.0 = demo_mint721 and ?r5.0 = demo_mint1155 and s = initial_world
       and w = "Wallet ''key'' (ChainProvider 1)"
       and owner = "''0xA11CE''" and tx = "demo_tx ?c7"
       and ptx = "(demo_tx ?c7)\<lparr>tx_from := Some ''0xA11CE'', tx_chainId := Some 1,
                                   tx_nonce := Some 0, tx_gasLimit := Some 21000\<rparr>"]
  note p5 = mint_failures_propagate_unwrapped
    [where d = prepare_rejects and pk = "Inl ''key''" and ch = 1 and e = "Error ''rejected''"
       and ?r7.0 = demo_mint721 and ?r5.0 = demo_mint1155 and s = initial_world
       and w = "Wallet ''key'' (ChainProvider 1)"
       and owner = "''0xA11CE''" and tx = "demo_tx ?c5"
       and ptx = "(demo_tx ?c5)\<lparr>tx_from := Some ''0xA11CE'', tx_chainId := Some 1,
                                   tx_nonce := Some 0, tx_gasLimit := Some 21000\<rparr>"]
  note s5 = mint_failures_propagate_unwrapped
    [where d = send_rejects and pk = "Inl ''key''" and ch = 1 and e = "Error ''rejected''"
       and ?r7.0 = demo_mint721 and ?r5.0 = demo_mint1155 and s = initial_world
       and w = "Wallet ''key'' (ChainProvider 1)"
       and owner = "''0xA11CE''" and tx = "demo_tx ?c5"
       and ptx = "(demo_tx ?c5)\<lparr>tx_from := Some ''0xA11CE'', tx_chainId := Some 1,
                                   tx_nonce := Some 0, tx_gasLimit := Some 21000\<rparr>"]
  note kr = mint_failures_propagate_unwrapped
    [where d = key_refused and pk = "Inl ''key''" and ch = 1 and e = "Error ''invalid private key''"
       and ?r7.0 = demo_mint721 and ?r5.0 = demo_mint1155 and s = initial_world
       and w = "Wallet ''key'' (ChainProvider 1)"
       and owner = "''0xA11CE''" and tx = "demo_tx ?c7" and ptx = "demo_tx ?c7"]
  have k: "mintERC1155Token key_refused demo_mint1155 1 (Inl ''key'') initial_world =
     (Inl (Error ''invalid private key''), initial_world)"
    using kr by (simp add: demo_defs)
  have a: "mintERC721Token signer_rejects demo_mint721 1 (Inl ''key'') initial_world =
     (Inl (Error ''rejected''),
      \<lparr>cache = Map.empty, trace = [Ev_getAddress (Wallet ''key'' (ChainProvider 1))]\<rparr>)"
    using sg by (simp add: demo_defs getChainProvider_def)
  have b: "mintERC721Token prepare_rejects demo_mint721 1 (Inl ''key'') initial_world =
     (Inl (Error ''rejected''),
      initial_world\<lparr>trace := trace initial_world @
       [Ev_getAddress (Wallet ''key'' (ChainProvider 1)),
        Ev_populateTransaction ?c7 (safeMint ''0xDEF'' ''ipfs://1''),
        Ev_prepareTransaction
          ((demo_tx ?c7)\<lparr>tx_from := Some ''0xA11CE'', tx_chainId := Some 1\<rparr>) 1]\<rparr>)"
    using p7 by (simp add: demo_defs getChainProvider_def)
  have c: "mintERC721Token send_rejects demo_mint721 1 (Inl ''key'') initial_world =
     (Inl (Error ''rejected''),
      initial_world\<lparr>trace := trace initial_world @
       [Ev_getAddress (Wallet ''key'' (ChainProvider 1)),
        Ev_populateTransaction ?c7 (safeMint ''0xDEF'' ''ipfs://1''),
        Ev_prepareTransaction
          ((demo_tx ?c7)\<lparr>tx_from := Some ''0xA11CE'', tx_chainId := Some 1\<rparr>) 1,
        Ev_sendTransaction (Wallet ''key'' (ChainProvider 1))
          ((demo_tx ?c7)\<lparr>tx_from := Some ''0xA11CE'', tx_chainId := Some 1,
                            tx_nonce := Some 0, tx_gasLimit := Some 21000\<rparr>)]\<rparr>)"
    using s7 by (simp add: demo_defs getChainProvider_def)
  have d: "mintERC1155Token prepare_rejects demo_mint1155 1 (Inl ''key'') initial_world =
     (Inl (Error ''rejected''),
      initial_world\<lparr>trace := trace initial_world @
       [Ev_getAddress (Wallet ''key'' (ChainProvider 1)),
        Ev_populateTransaction ?c5 (mint ''0xDEF'' ''7'' 3 ''0x''),
        Ev_prepareTransaction
          ((demo_tx ?c5)\<lparr>tx_from := Some ''0xA11CE'', tx_chainId := Some 1\<rparr>) 1]\<rparr>)"
    using p5 by (simp add: demo_defs getChainProvider_def)
  have e: "mintERC1155Token send_rejects demo_mint1155 1 (Inl ''key'') initial_world =
     (Inl (Error ''rejected''),
      initial_world\<lparr>trace := trace initial_world @
       [Ev_getAddress (Wallet ''key'' (ChainProvider 1)),
        Ev_populateTransaction ?c5 (mint ''0xDEF'' ''7'' 3 ''0x''),
        Ev_prepareTransaction
          ((demo_tx ?c5)\<lparr>tx_from := Some ''0xA11CE'', tx_chainId := Some 1\<rparr>) 1,
        Ev_sendTransaction (Wallet ''key'' (ChainProvider 1))
          ((demo_tx ?c5)\<lparr>tx_from := Some ''0xA11CE'', tx_chainId := Some 1,
                            tx_nonce := Some 0, tx_gasLimit := Some 21000\<rparr>)]\<rparr>)"
    using s5 by (simp add: demo_defs getChainProvider_def)
  show ?thesis
    unfolding k a b c d e by (simp add: initial_world_def)
qed

theorem mint_failure_sources_counterexample:
  "fst (mintERC721Token prepare_rejects demo_mint721 1 (Inl ''key'') initial_world) =
     Inl (Error ''rejected'')
   \<and> fst (mintERC721Token send_rejects demo_mint721 1 (Inl ''key'') initial_world) =
     Inl (Error ''rejected'')
   \<and> fst (mintERC1155Token prepare_rejects demo_mint1155 1 (Inl ''key'') initial_world) =
     fst (mintERC1155Token send_rejects demo_mint1155 1 (Inl ''key'') initial_world)"
  by (simp add: demo_defs run_defs)


section \<open>The schema of cached entries\<close>

lemma cache_ok_cacheGet: "cache_ok s \<Longrightarrow> cache_ok (snd (cacheGet d a ch s))"
  by (cases "cache_read (cache s) a")
     (auto simp: cacheGet_hit cacheGet_miss cache_ok_def dest: cache_read_None split: sum.splits)

lemma reachable_cache_ok: "reachable s \<Longrightarrow> cache_ok s"
proof (induction rule: reachable.induct)
  case initial
  show ?case by (simp add: cache_ok_def initial_world_def)
next
  case (transfer s d rq ch pk)
  then show ?case
    using cache_ok_cacheGet [of s d "contractAddress rq" ch]
    by (simp add: cache_ok_def cache_transferNft)
qed (simp_all add: cache_ok_def cache_mintERC721Token cache_mintERC1155Token
      cache_createERC1155Collection cache_createERC721Collection)

lemma stored_schema_never_unknown:
  assumes "reachable s"
  shows "(\<forall>a b. cache s a = Some b \<longrightarrow>
            (schema b = ERC721 \<or> schema b = ERC1155) \<and> a \<notin> set Object_prototype)
       \<and> (\<forall>d a ch b s1. cacheGet d a ch s = (Inr (Stored b), s1) \<longrightarrow>
            schema b = ERC721 \<or> schema b = ERC1155)"
proof -
  have ok: "cache_ok s" using assms by (rule reachable_cache_ok)
  have ne: "\<And>t. t \<noteq> UNKNOWN \<Longrightarrow> t = ERC721 \<or> t = ERC1155"
    by (case_tac t) simp_all
  show ?thesis
  proof (intro conjI allI impI)
    fix a b assume "cache s a = Some b"
    with ok have "schema b \<noteq> UNKNOWN" by (simp add: cache_ok_def)
    then show "schema b = ERC721 \<or> schema b = ERC1155" by (rule ne)
  next
    fix a b assume "cache s a = Some b"
    with ok show "a \<notin> set Object_prototype" by (simp add: cache_ok_def)
  next
    fix d a ch b s1 assume res: "cacheGet d a ch s = (Inr (Stored b), s1)"
    from cacheGet_success_cached [OF res] have "cache s1 a = Some b"
      by (simp add: cache_read_def split: option.splits if_splits)
    moreover have "cache_ok s1"
      using cache_ok_cacheGet [OF ok, of d a ch] res by simp
    ultimately have "schema b \<noteq> UNKNOWN" by (simp add: cache_ok_def)
    then show "schema b = ERC721 \<or> schema b = ERC1155" by (rule ne)
  qed
qed

text \<open>
  Claim C9: the code breaks it. The half about what is stored holds: in every state
  the operations can reach from the empty cache, every stored entry has schema
  \<open>ERC721\<close> or \<open>ERC1155\<close> (lemma \<open>stored_schema_never_unknown\<close>). But what a transfer
  obtains through the cache need not be a stored entry. On the empty cache, for the
  address \<open>constructor\<close>, the read of line 119 finds the inherited member, \<open>cacheGet\<close>
  returns it without asking the registry, its \<open>schema\<close> is \<open>undefined\<close>, and the
  transfer takes the default branch: it fails with \<open>Error("Unsupported NFT type:
  undefined")\<close>. The defect is the one of claim C4.
\<close>

theorem transferNft_inherited_name_default_branch:
  "transferNft demo_deps (transfer_of ''constructor'' [''1''] None) 1 (Inl ''key'') initial_world =
     (Inl (Error ''Unsupported NFT type: undefined''),
      \<lparr>cache = Map.empty, trace = [Ev_getAddress (Wallet ''key'' (ChainProvider 1))]\<rparr>)
   \<and> cache initial_world = Map.empty"
  by (simp add: demo_defs run_defs)

section \<open>Transfer: amounts are not validated\<close>

text \<open>
  Claim C10. On a binding of schema \<open>ERC1155\<close> the transfer checks nothing about
  \<open>amounts\<close>. With more than one token id it goes on to populate
  \<open>safeBatchTransferFrom\<close> with \<open>amounts\<close> as it came, absent or of any length; with at
  most one token id and \<open>amounts\<close> present it populates \<open>safeTransferFrom\<close> with
  \<open>tokenIDs[0]\<close> and \<open>amounts[0]\<close> unguarded, \<open>undefined\<close> where the array is empty.
  In both cases what the transfer returns is what populating, preparing and sending
  that call returns: no shape error of the service comes in between. The witness runs
  \<open>amounts\<close> absent, \<open>amounts\<close> shorter than \<open>tokenIDs\<close>, and both empty.
\<close>

theorem transferNft_ERC1155_amounts_unchecked:
  assumes "cacheGet d (contractAddress rq) ch s = (Inr (Stored b), s1)"
      and "schema b = ERC1155"
      and "getWallet d pk ch = Inr w"
      and "getAddress d w = Inr owner"
  shows "(1 < length (tokenIDs rq) \<longrightarrow>
            transferNft d rq ch pk s =
              await (populate d (contract b)
                       (safeBatchTransferFrom owner (receiver rq) (tokenIDs rq) (amounts rq) ''0x''))
                (prepareAndSend d w owner ch)
                (s1\<lparr>trace := trace s1 @ [Ev_getAddress w]\<rparr>))
       \<and> (\<forall>ams. length (tokenIDs rq) \<le> 1 \<and> amounts rq = Some ams \<longrightarrow>
            transferNft d rq ch pk s =
              await (populate d (contract b)
                       (safeTransferFrom owner (receiver rq) (index0 (tokenIDs rq)) (index0 ams) ''0x''))
                (prepareAndSend d w owner ch)
                (s1\<lparr>trace := trace s1 @ [Ev_getAddress w]\<rparr>))"
  using assms(2) by (auto simp: transferNft_resolved [OF assms(1) assms(3) assms(4)])

theorem transferNft_ERC1155_amounts_unchecked_witness:
  "populated (trace (snd (transferNft demo_deps (transfer_of ''0xABC'' [''7'', ''8''] None) 1
                            (Inl ''key'') initial_world))) =
     [(contract abc_binding, safeBatchTransferFrom ''0xA11CE'' ''0xDEF'' [''7'', ''8''] None ''0x'')]
   \<and> populated (trace (snd (transferNft demo_deps (transfer_of ''0xABC'' [''7'', ''8''] (Some [3])) 1
                            (Inl ''key'') initial_world))) =
     [(contract abc_binding, safeBatchTransferFrom ''0xA11CE'' ''0xDEF'' [''7'', ''8''] (Some [3]) ''0x'')]
   \<and> populated (trace (snd (transferNft demo_deps (transfer_of ''0xABC'' [] (Some [])) 1
                            (Inl ''key'') initial_world))) =
     [(contract abc_binding, safeTransferFrom ''0xA11CE'' ''0xDEF'' None None ''0x'')]
   \<and> fst (transferNft demo_deps (transfer_of ''0xABC'' [''7'', ''8''] None) 1 (Inl ''key'') initial_world)
       = Inr ''0xHASH''
   \<and> fst (transferNft demo_deps (transfer_of ''0xABC'' [''7'', ''8''] (Some [3])) 1 (Inl ''key'') initial_world)
       = Inr ''0xHASH''
   \<and> fst (transferNft demo_deps (transfer_of ''0xABC'' [] (Some [])) 1 (Inl ''key'') initial_world)
       = Inr ''0xHASH''"
proof -
  have sch: "schema abc_binding = ERC1155" by (simp add: abc_binding_def)
  note absent = transferNft_ERC1155_amounts_unchecked
      [OF demo_resolve_abc [of "[''7'', ''8'']" None] sch demo_wallet demo_signer]
  note short = transferNft_ERC1155_amounts_unchecked
      [OF demo_resolve_abc [of "[''7'', ''8'']" "Some [3]"] sch demo_wallet demo_signer]
  note empty = transferNft_ERC1155_amounts_unchecked
      [OF demo_resolve_abc [of "[]" "Some []"] sch demo_wallet demo_signer]
  have a: "transferNft demo_deps (transfer_of ''0xABC'' [''7'', ''8''] None) 1 (Inl ''key'') initial_world =
      await (populate demo_deps (contract abc_binding)
               (safeBatchTransferFrom ''0xA11CE'' ''0xDEF'' [''7'', ''8''] None ''0x''))
        (prepareAndSend demo_deps (Wallet ''key'' (ChainProvider 1)) ''0xA11CE'' 1)
        (world_abc\<lparr>trace := trace world_abc @ [Ev_getAddress (Wallet ''key'' (ChainProvider 1))]\<rparr>)"
    using absent by (simp add: transfer_of_def)
  have b: "transferNft demo_deps (transfer_of ''0xABC'' [''7'', ''8''] (Some [3])) 1 (Inl ''key'') initial_world =
      await (populate demo_deps (contract abc_binding)
               (safeBatchTransferFrom ''0xA11CE'' ''0xDEF'' [''7'', ''8''] (Some [3]) ''0x''))
        (prepareAndSend demo_deps (Wallet ''key'' (ChainProvider 1)) ''0xA11CE'' 1)
        (world_abc\<lparr>trace := trace world_abc @ [Ev_getAddress (Wallet ''key'' (ChainProvider 1))]\<rparr>)"
    using short by (simp add: transfer_of_def)
  have c: "transferNft demo_deps (transfer_of ''0xABC'' [] (Some [])) 1 (Inl ''key'') initial_world =
      await (populate demo_deps (contract abc_binding)
               (safeTransferFrom ''0xA11CE'' ''0xDEF'' None None ''0x''))
        (prepareAndSend demo_deps (Wallet ''key'' (ChainProvider 1)) ''0xA11CE'' 1)
        (world_abc\<lparr>trace := trace world_abc @ [Ev_getAddress (Wallet ''key'' (ChainProvider 1))]\<rparr>)"
    using empty by (simp add: transfer_of_def)
  show ?thesis
    unfolding a b c
    by (simp add: populated_populate_then_send world_abc_def)
       (simp add: demo_defs run_defs)
qed


end
